(* ===== verification/Prelude.thy ===== *)
theory Prelude
  imports Complex_Main "HOL-Library.Multiset" "HOL-Library.Product_Lexorder"
    "HOL-Library.List_Lexorder" "HOL-Library.Char_ord"
begin

text \<open>
  Shared vocabulary of the dashboard model: the exceptions the script can raise
  (one constructor per raising call of \<^verbatim>\<open>src/dashboard/project_dashboard.py\<close>),
  the result type of fallible operations, the collection of definitions that
  evaluate the model on concrete tables, and generic facts on list sums and
  key-partitioned lists that the aggregation and statistics components share.
\<close>

section \<open>Errors and results\<close>

text \<open>
  The script has no \<^verbatim>\<open>try\<close>: every exception ends the run and Streamlit shows
  it instead of the page. Each constructor is one raising call:
  \<^item> \<open>UnpackError n\<close>: \<^verbatim>\<open>start_date, end_date = st.date_input(...)\<close> received
    \<open>n \<noteq> 2\<close> values (line 147);
  \<^item> \<open>NoMinDate\<close>: \<^verbatim>\<open>df_day0["dteday"].min()\<close> of an empty table is \<^verbatim>\<open>NaT\<close>,
    which the date picker rejects (lines 144--151);
  \<^item> \<open>DateCompare\<close>: comparing the datetime column with a string that pandas cannot
    parse as a timestamp (line 20);
  \<^item> \<open>NaNToInt\<close>: \<^verbatim>\<open>round(df_day.casual.mean())\<close> on an empty selection, since the
    mean is NaN and \<^verbatim>\<open>round\<close> without digits converts to \<^verbatim>\<open>int\<close> (line 164);
  \<^item> \<open>EmptyArgmax\<close>: \<^verbatim>\<open>idxmax\<close>/\<^verbatim>\<open>idxmin\<close> of an empty column (lines 190, 219);
  \<^item> \<open>NoSamples\<close>: \<^verbatim>\<open>LinearRegression().fit\<close> on zero rows (line 108).
\<close>

datatype error =
    UnpackError nat
  | NoMinDate
  | DateCompare
  | NaNToInt
  | EmptyArgmax
  | NoSamples

type_synonym 'a result = "error + 'a"

named_theorems model_eval "definitions unfolded to evaluate the model on concrete tables"

section \<open>Sums over lists\<close>

text \<open>
  Python sums a column left to right; the model uses \<^const>\<open>sum_list\<close>. The facts
  below are the ones the aggregation and regression proofs use repeatedly.
\<close>

lemma sum_list_map_add_int [simp]:
  "sum_list (map (\<lambda>x. f x + g x) xs) = sum_list (map f xs) + sum_list (map (g :: 'a \<Rightarrow> int) xs)"
  by (induction xs) auto

lemma sum_list_filter_key_Cons:
  "sum_list (map v (filter (\<lambda>x. key x = k) (y # ys))) =
     (if key y = k then v y else 0) + sum_list (map (v :: 'a \<Rightarrow> 'b :: comm_monoid_add) (filter (\<lambda>x. key x = k) ys))"
  by simp

text \<open>
  Partitioning a list by a key and summing each part gives the sum of the whole
  list: the fact behind the consistency of group-wise means.
\<close>

lemma sum_list_partition_by_key:
  "(\<Sum>k\<in>set (map key xs). sum_list (map v (filter (\<lambda>x. key x = k) xs))) =
     sum_list (map (v :: 'a \<Rightarrow> 'b :: comm_monoid_add) xs)"
proof (induction xs)
  case Nil
  then show ?case by simp
next
  case (Cons y ys)
  let ?S = "\<lambda>zs k. sum_list (map v (filter (\<lambda>x. key x = k) zs))"
  have split: "(\<Sum>k\<in>set (map key (y # ys)). ?S (y # ys) k) =
      (\<Sum>k\<in>set (map key (y # ys)). (if key y = k then v y else 0)) +
      (\<Sum>k\<in>set (map key (y # ys)). ?S ys k)"
    by (simp only: sum_list_filter_key_Cons sum.distrib)
  have one: "(\<Sum>k\<in>set (map key (y # ys)). (if key y = k then v y else 0)) = v y"
    by (simp add: sum.delta)
  have rest: "(\<Sum>k\<in>set (map key (y # ys)). ?S ys k) = (\<Sum>k\<in>set (map key ys). ?S ys k)"
  proof (cases "key y \<in> set (map key ys)")
    case True
    then show ?thesis by (simp add: insert_absorb)
  next
    case False
    then have "?S ys (key y) = 0"
      by (induction ys) auto
    with False show ?thesis by simp
  qed
  show ?case
    using split one rest Cons.IH by simp
qed

lemma sum_list_partition_by_key_remdups:
  "(\<Sum>k\<leftarrow>sort (remdups (map key xs)). sum_list (map v (filter (\<lambda>x. key x = k) xs))) =
     sum_list (map (v :: 'a \<Rightarrow> 'b :: comm_monoid_add) xs)"
proof -
  have "distinct (sort (remdups (map key xs)))" by simp
  then have "(\<Sum>k\<leftarrow>sort (remdups (map key xs)). sum_list (map v (filter (\<lambda>x. key x = k) xs))) =
      (\<Sum>k\<in>set (map key xs). sum_list (map v (filter (\<lambda>x. key x = k) xs)))"
    by (simp add: sum_list_distinct_conv_sum_set)
  then show ?thesis by (simp only: sum_list_partition_by_key)
qed

lemma sum_list_perm:
  assumes "mset ys = mset xs"
  shows "sum_list (map (h :: 'a \<Rightarrow> 'b :: comm_monoid_add) ys) = sum_list (map h xs)"
proof -
  from assms have "sum_mset (mset (map h ys)) = sum_mset (mset (map h xs))"
    by (simp only: mset_map)
  then show ?thesis by (simp only: sum_mset_sum_list)
qed

lemma sum_list_cong:
  "(\<And>x. x \<in> set xs \<Longrightarrow> f x = g x) \<Longrightarrow> sum_list (map f xs) = sum_list (map g xs)"
  by (simp cong: map_cong)

lemma sum_list_map_nonneg:
  "(\<And>x. x \<in> set xs \<Longrightarrow> 0 \<le> f x) \<Longrightarrow> 0 \<le> sum_list (map (f :: 'a \<Rightarrow> 'b :: ordered_comm_monoid_add) xs)"
  by (induction xs) auto

lemma sum_list_squares_nonneg [simp]: "0 \<le> (\<Sum>x\<leftarrow>xs. (f x)\<^sup>2 :: real)"
  by (rule sum_list_map_nonneg) simp

section \<open>Descending order\<close>

text \<open>
  A list is in descending order of a key when the reversed list of keys is
  sorted; the aggregation tables are stated this way.
\<close>

abbreviation sorted_desc :: "('a \<Rightarrow> 'k :: linorder) \<Rightarrow> 'a list \<Rightarrow> bool" where
  "sorted_desc f xs \<equiv> sorted (rev (map f xs))"

end
