(* ===== verification/Dates.thy ===== *)
theory Dates
  imports Prelude
begin

text \<open>
  Calendar dates as the script handles them: the \<^verbatim>\<open>dteday\<close> column parsed by
  \<^verbatim>\<open>pd.to_datetime\<close> (lines 14--15), the \<^verbatim>\<open>datetime.date\<close> values of the
  picker printed by \<^verbatim>\<open>str\<close> and read back by pandas to be compared with the
  column (line 20), and the day cards printed by \<^verbatim>\<open>strftime('%Y-%m-%d')\<close>
  (lines 192, 221). A date is a (year, month, day) triple ordered as Python
  orders dates, lexicographically; validity is the check of the
  \<^verbatim>\<open>datetime.date\<close> constructor. The parser is the date part of pandas'
  ISO-8601 reader. The main result characterises the strings it accepts as the
  spellings of valid dates; it makes the string comparison of \<^verbatim>\<open>f_date\<close> a
  comparison of dates.
\<close>

section \<open>Dates and their order\<close>

datatype date = Date (year: nat) (month: nat) (day: nat)

definition date_key :: "date \<Rightarrow> nat \<times> nat \<times> nat" where
  "date_key d = (year d, month d, day d)"

lemma date_key_inj: "date_key a = date_key b \<longleftrightarrow> a = b"
  by (cases a; cases b) (simp add: date_key_def)

instantiation date :: linorder
begin

definition less_eq_date :: "date \<Rightarrow> date \<Rightarrow> bool" where
  "less_eq_date a b \<longleftrightarrow> date_key a \<le> date_key b"

definition less_date :: "date \<Rightarrow> date \<Rightarrow> bool" where
  "less_date a b \<longleftrightarrow> date_key a < date_key b"

instance
proof
  fix a b c :: date
  show "a < b \<longleftrightarrow> a \<le> b \<and> \<not> b \<le> a"
    by (simp add: less_eq_date_def less_date_def less_le_not_le)
  show "a \<le> a" by (simp add: less_eq_date_def)
  show "a \<le> b \<Longrightarrow> b \<le> c \<Longrightarrow> a \<le> c"
    unfolding less_eq_date_def by (rule order_trans)
  show "a \<le> b \<Longrightarrow> b \<le> a \<Longrightarrow> a = b"
    unfolding less_eq_date_def by (simp add: date_key_inj [symmetric])
  show "a \<le> b \<or> b \<le> a"
    by (simp add: less_eq_date_def linear)
qed

end

lemma Date_le_iff [simp]:
  "Date y m d \<le> Date y' m' d' \<longleftrightarrow> (y, m, d) \<le> (y', m', d')"
  by (simp add: less_eq_date_def date_key_def)

lemma Date_less_iff [simp]:
  "Date y m d < Date y' m' d' \<longleftrightarrow> (y, m, d) < (y', m', d')"
  by (simp add: less_date_def date_key_def)

section \<open>Validity\<close>

definition is_leap :: "nat \<Rightarrow> bool" where
  "is_leap y \<longleftrightarrow> 4 dvd y \<and> (\<not> 100 dvd y \<or> 400 dvd y)"

definition days_in_month :: "nat \<Rightarrow> nat \<Rightarrow> nat" where
  "days_in_month y m =
     (if m = 2 then (if is_leap y then 29 else 28)
      else if m \<in> {4, 6, 9, 11} then 30 else 31)"

definition valid_date :: "date \<Rightarrow> bool" where
  "valid_date d \<longleftrightarrow>
     1 \<le> year d \<and> year d \<le> 9999 \<and> 1 \<le> month d \<and> month d \<le> 12 \<and>
     1 \<le> day d \<and> day d \<le> days_in_month (year d) (month d)"

lemmas date_eval [model_eval] = valid_date_def days_in_month_def is_leap_def

section \<open>Decimal digits\<close>

definition digit_char :: "nat \<Rightarrow> char" where
  "digit_char n = char_of (48 + n)"

definition char_digit :: "char \<Rightarrow> nat option" where
  "char_digit c = (let k = of_char c :: nat in if 48 \<le> k \<and> k \<le> 57 then Some (k - 48) else None)"

text \<open>\<open>pad_digits w n\<close>: the last \<open>w\<close> decimal digits of \<open>n\<close>, zero-padded (\<^verbatim>\<open>%0wd\<close>).\<close>

fun pad_digits :: "nat \<Rightarrow> nat \<Rightarrow> string" where
  "pad_digits 0 n = []"
| "pad_digits (Suc w) n = pad_digits w (n div 10) @ [digit_char (n mod 10)]"

text \<open>\<open>show_nat n\<close>: the decimal digits of \<open>n\<close> without padding (\<^verbatim>\<open>%d\<close>).\<close>

fun show_nat :: "nat \<Rightarrow> string" where
  "show_nat n = (if n < 10 then [digit_char n] else show_nat (n div 10) @ [digit_char (n mod 10)])"

declare show_nat.simps [simp del]

fun read_digits_acc :: "nat \<Rightarrow> string \<Rightarrow> nat option" where
  "read_digits_acc acc [] = Some acc"
| "read_digits_acc acc (c # cs) =
     (case char_digit c of None \<Rightarrow> None | Some k \<Rightarrow> read_digits_acc (10 * acc + k) cs)"

definition read_digits :: "string \<Rightarrow> nat option" where
  "read_digits s = (if s = [] then None else read_digits_acc 0 s)"

section \<open>Printing and parsing ISO dates\<close>

text \<open>\<^verbatim>\<open>str(d)\<close> of a \<^verbatim>\<open>datetime.date\<close> is \<^verbatim>\<open>d.isoformat()\<close>: \<^verbatim>\<open>%04d-%02d-%02d\<close>.\<close>

definition iso_date :: "date \<Rightarrow> string" where
  "iso_date d = pad_digits 4 (year d) @ ''-'' @ pad_digits 2 (month d) @ ''-'' @ pad_digits 2 (day d)"

text \<open>
  \<^verbatim>\<open>strftime('%Y-%m-%d')\<close> of a pandas timestamp: C's \<^verbatim>\<open>%Y\<close> prints the year without
  padding, \<^verbatim>\<open>%m\<close> and \<^verbatim>\<open>%d\<close> pad to two digits.
\<close>

definition strftime_ymd :: "date \<Rightarrow> string" where
  "strftime_ymd d = show_nat (year d) @ ''-'' @ pad_digits 2 (month d) @ ''-'' @ pad_digits 2 (day d)"

text \<open>
  \<^verbatim>\<open>pd.to_datetime\<close> (lines 14--15) and the timestamp pandas builds from a
  bound string (line 20) read dates with pandas' ISO-8601 parser
  (\<^verbatim>\<open>parse_iso_8601_datetime\<close>). Its date part is four year digits, then
  either a separator out of \<^verbatim>\<open>- . / \\<close> and blank, a month of one or two
  digits and, optionally, the same separator and a day of one or two digits;
  or, without a separator, exactly two month and two day digits (the form
  \<^verbatim>\<open>YYYYMM\<close> is refused). A missing month or day is 1, and the fields must
  name a valid calendar date. A time part, leading blanks, and the strings only
  dateutil's fallback parser reads are outside the model (\<open>None\<close>); neither the
  dataset's column nor \<^verbatim>\<open>str(date)\<close> produces them.
\<close>

definition ymd_seps :: "char list" where
  "ymd_seps = [CHR ''-'', CHR ''.'', CHR ''/'', CHR 0x5C, CHR '' '']"

text \<open>One field of one or two digits, returned with the rest of the string; the
  second digit is optional only after a separator.\<close>

fun read_field :: "bool \<Rightarrow> string \<Rightarrow> (nat \<times> string) option" where
  "read_field sep [] = None"
| "read_field sep (c # cs) =
     (case char_digit c of
        None \<Rightarrow> None
      | Some a \<Rightarrow>
          (case cs of
             [] \<Rightarrow> if sep then Some (a, []) else None
           | c' # cs' \<Rightarrow>
               (case char_digit c' of
                  Some b \<Rightarrow> Some (10 * a + b, cs')
                | None \<Rightarrow> if sep then Some (a, cs) else None)))"

definition checked_date :: "nat \<Rightarrow> nat \<Rightarrow> nat \<Rightarrow> date option" where
  "checked_date y m d = (if valid_date (Date y m d) then Some (Date y m d) else None)"

definition parse_iso_date :: "string \<Rightarrow> date option" where
  "parse_iso_date s =
     (if length s < 4 then None
      else
        (case read_digits (take 4 s) of
           None \<Rightarrow> None
         | Some y \<Rightarrow>
             (case drop 4 s of
                [] \<Rightarrow> checked_date y 1 1
              | c # r \<Rightarrow>
                  (let sep = c \<in> set ymd_seps in
                   if \<not> sep \<and> char_digit c = None then None
                   else
                     (case read_field sep (if sep then r else c # r) of
                        None \<Rightarrow> None
                      | Some (m, []) \<Rightarrow> if sep then checked_date y m 1 else None
                      | Some (m, c' # r') \<Rightarrow>
                          if sep \<and> c' \<noteq> c then None
                          else
                            (case read_field sep (if sep then r' else c' # r') of
                               Some (d, []) \<Rightarrow> checked_date y m d
                             | _ \<Rightarrow> None))))))"

text \<open>The spellings of a date the parser accepts: a field is written with two
  digits or, after a separator, with its shortest decimal form.\<close>

definition field_texts :: "nat \<Rightarrow> string list" where
  "field_texts n = [pad_digits 2 n, show_nat n]"

definition date_spellings :: "date \<Rightarrow> string list" where
  "date_spellings d =
     (let y = pad_digits 4 (year d) in
      [y @ pad_digits 2 (month d) @ pad_digits 2 (day d)] @
      [y @ [c] @ m @ [c] @ dd. c \<leftarrow> ymd_seps, m \<leftarrow> field_texts (month d), dd \<leftarrow> field_texts (day d)] @
      (if day d = 1 then [y @ [c] @ m. c \<leftarrow> ymd_seps, m \<leftarrow> field_texts (month d)] else []) @
      (if month d = 1 \<and> day d = 1 then [y] else []))"

section \<open>Round trips of printing and parsing\<close>

lemma read_digits_acc_append:
  "read_digits_acc acc (xs @ ys) =
     (case read_digits_acc acc xs of None \<Rightarrow> None | Some a \<Rightarrow> read_digits_acc a ys)"
  by (induction xs arbitrary: acc) (auto split: option.splits)

lemma char_digit_digit_char [simp]: "k < 10 \<Longrightarrow> char_digit (digit_char k) = Some k"
  by (simp add: char_digit_def digit_char_def)


lemma length_pad_digits [simp]: "length (pad_digits w n) = w"
  by (induction w arbitrary: n) auto

lemma read_pad_digits:
  "read_digits_acc acc (pad_digits w n) = Some (acc * 10 ^ w + n mod 10 ^ w)"
proof (induction w arbitrary: n)
  case 0
  then show ?case by simp
next
  case (Suc w)
  have "n mod 10 ^ Suc w = 10 * (n div 10 mod 10 ^ w) + n mod 10"
    by (simp add: mod_mult2_eq mult.commute)
  with Suc.IH show ?case
    by (simp add: read_digits_acc_append algebra_simps)
qed

lemma read_digits_pad:
  "0 < w \<Longrightarrow> n < 10 ^ w \<Longrightarrow> read_digits (pad_digits w n) = Some n"
proof -
  assume "0 < w" "n < 10 ^ w"
  moreover have "pad_digits w n \<noteq> []"
    using length_pad_digits [of w n] \<open>0 < w\<close> by (metis length_0_conv less_numeral_extra(3))
  ultimately show ?thesis by (simp add: read_digits_def read_pad_digits)
qed



lemma days_in_month_le: "days_in_month y m \<le> 31"
  by (simp add: days_in_month_def)


lemma show_nat_pad_digits:
  "10 ^ w \<le> n \<Longrightarrow> n < 10 ^ Suc w \<Longrightarrow> show_nat n = pad_digits (Suc w) n"
proof (induction w arbitrary: n)
  case 0
  then show ?case by (simp add: show_nat.simps)
next
  case (Suc w)
  have "(10::nat) \<le> 10 ^ Suc w" by simp
  with Suc.prems have big: "\<not> n < 10" by linarith
  have lo: "10 ^ w \<le> n div 10"
    using div_le_mono [OF Suc.prems(1), of 10] by simp
  have hi: "n div 10 < 10 ^ Suc w"
    using Suc.prems(2) by (simp add: less_mult_imp_div_less mult.commute)
  have "show_nat n = show_nat (n div 10) @ [digit_char (n mod 10)]"
    using big by (simp add: show_nat.simps [of n])
  also have "show_nat (n div 10) = pad_digits (Suc w) (n div 10)"
    using lo hi by (rule Suc.IH)
  finally show ?case by simp
qed

lemma strftime_ymd_iso_date:
  "1000 \<le> year d \<Longrightarrow> year d \<le> 9999 \<Longrightarrow> strftime_ymd d = iso_date d"
  using show_nat_pad_digits [of 3 "year d"] by (simp add: strftime_ymd_def iso_date_def)

section \<open>Reading the date fields\<close>

lemma seps_not_digit: "c \<in> set ymd_seps \<Longrightarrow> char_digit c = None"
  by (auto simp: ymd_seps_def char_digit_def)

lemma digit_char_not_sep [simp]: "k < 10 \<Longrightarrow> digit_char k \<notin> set ymd_seps"
  using seps_not_digit by force

lemma pad_digits_2: "n < 100 \<Longrightarrow> pad_digits 2 n = [digit_char (n div 10), digit_char (n mod 10)]"
  by (simp add: numeral_2_eq_2)

lemma show_nat_small: "n < 10 \<Longrightarrow> show_nat n = [digit_char n]"
  by (simp add: show_nat.simps)

text \<open>Every spelling of a field is its two digits or, below ten, its one digit.\<close>

lemma field_texts_cases:
  assumes "t \<in> set (field_texts n)" and "n < 100"
  shows "t = [digit_char (n div 10), digit_char (n mod 10)] \<or> (n < 10 \<and> t = [digit_char n])"
proof (cases "n < 10")
  case True
  then show ?thesis using assms by (auto simp: field_texts_def pad_digits_2 show_nat_small)
next
  case False
  then have "show_nat n = pad_digits 2 n"
    using assms(2) show_nat_pad_digits [of 1 n] by (simp add: numeral_2_eq_2)
  then show ?thesis using assms by (auto simp: field_texts_def pad_digits_2)
qed

lemma digits_10 [simp]: "10 * (n div 10) + n mod 10 = (n::nat)"
  by simp

lemma div_10_less [simp]: "n < 100 \<Longrightarrow> n div 10 < (10::nat)"
  by simp


lemma read_field_two [simp]:
  "a < 10 \<Longrightarrow> b < 10 \<Longrightarrow> read_field sep (digit_char a # digit_char b # r) = Some (10 * a + b, r)"
  by simp

lemma read_field_one [simp]:
  "a < 10 \<Longrightarrow> read_field True [digit_char a] = Some (a, [])"
  by simp

lemma read_field_one_sep [simp]:
  "a < 10 \<Longrightarrow> c \<in> set ymd_seps \<Longrightarrow> read_field True (digit_char a # c # r) = Some (a, c # r)"
  by (simp add: seps_not_digit)

lemma take_drop_year:
  assumes "y < 10000"
  shows "length (pad_digits 4 y @ r) \<ge> 4 \<and> read_digits (take 4 (pad_digits 4 y @ r)) = Some y \<and>
         drop 4 (pad_digits 4 y @ r) = r"
  using assms read_digits_pad [of 4 y] by simp

section \<open>The accepted spellings\<close>

lemma parse_year: "y < 10000 \<Longrightarrow> parse_iso_date (pad_digits 4 y) = checked_date y 1 1"
  using take_drop_year [of y "[]"] by (simp add: parse_iso_date_def)

lemma parse_compact:
  assumes "y < 10000" and "m < 100" and "d < 100"
  shows "parse_iso_date (pad_digits 4 y @ pad_digits 2 m @ pad_digits 2 d) = checked_date y m d"
  using take_drop_year [OF assms(1), of "pad_digits 2 m @ pad_digits 2 d"] assms(2,3)
  by (simp add: parse_iso_date_def pad_digits_2)

lemma parse_month:
  assumes "y < 10000" and "m < 100" and "c \<in> set ymd_seps" and "tm \<in> set (field_texts m)"
  shows "parse_iso_date (pad_digits 4 y @ [c] @ tm) = checked_date y m 1"
  using field_texts_cases [OF assms(4,2)]
proof
  assume "tm = [digit_char (m div 10), digit_char (m mod 10)]"
  then show ?thesis
    using take_drop_year [OF assms(1), of "[c] @ tm"] assms(2,3) by (simp add: parse_iso_date_def)
next
  assume "m < 10 \<and> tm = [digit_char m]"
  then show ?thesis
    using take_drop_year [OF assms(1), of "[c] @ tm"] assms(3) by (simp add: parse_iso_date_def)
qed

lemma parse_day:
  assumes "y < 10000" and "m < 100" and "d < 100" and "c \<in> set ymd_seps"
    and "tm \<in> set (field_texts m)" and "td \<in> set (field_texts d)"
  shows "parse_iso_date (pad_digits 4 y @ [c] @ tm @ [c] @ td) = checked_date y m d"
proof -
  have r: "read_field True (tm @ c # td) = Some (m, c # td)"
    using field_texts_cases [OF assms(5,2)] assms(2,4) seps_not_digit [OF assms(4)] by auto
  have "read_field True td = Some (d, [])"
    using field_texts_cases [OF assms(6,3)] assms(3) by auto
  then show ?thesis
    using take_drop_year [OF assms(1), of "[c] @ tm @ [c] @ td"] assms(4) r
    by (simp add: parse_iso_date_def)
qed


lemma valid_date_bounds:
  "valid_date d \<Longrightarrow> year d < 10000 \<and> month d < 100 \<and> day d < 100"
  using days_in_month_le [of "year d" "month d"] by (auto simp: valid_date_def)

lemma checked_date_valid: "valid_date d \<Longrightarrow> checked_date (year d) (month d) (day d) = Some d"
  by (cases d) (simp add: checked_date_def)

lemma spelling_parses:
  assumes "valid_date d" and "s \<in> set (date_spellings d)"
  shows "parse_iso_date s = Some d"
proof -
  from valid_date_bounds [OF assms(1)] have b: "year d < 10000" "month d < 100" "day d < 100"
    by simp_all
  note ok = checked_date_valid [OF assms(1)]
  from assms(2) consider
      "s = pad_digits 4 (year d) @ pad_digits 2 (month d) @ pad_digits 2 (day d)"
    | c tm td where "c \<in> set ymd_seps" "tm \<in> set (field_texts (month d))" "td \<in> set (field_texts (day d))"
        "s = pad_digits 4 (year d) @ [c] @ tm @ [c] @ td"
    | c tm where "day d = 1" "c \<in> set ymd_seps" "tm \<in> set (field_texts (month d))"
        "s = pad_digits 4 (year d) @ [c] @ tm"
    | "month d = 1" "day d = 1" "s = pad_digits 4 (year d)"
    unfolding date_spellings_def Let_def by (auto split: if_splits)
  then show ?thesis
  proof cases
    case 1
    then show ?thesis using parse_compact [OF b] ok by simp
  next
    case (2 c tm td)
    then show ?thesis using parse_day [OF b 2(1-3)] ok by simp
  next
    case (3 c tm)
    then show ?thesis using parse_month [OF b(1,2) 3(2,3)] ok by simp
  next
    case 4
    then show ?thesis using parse_year [OF b(1)] ok by simp
  qed
qed



lemma parse_iso_date_iso_date:
  assumes "valid_date d"
  shows "parse_iso_date (iso_date d) = Some d"
proof -
  have "iso_date d \<in> set (date_spellings d)"
    by (simp add: iso_date_def date_spellings_def Let_def ymd_seps_def field_texts_def)
  with assms show ?thesis by (rule spelling_parses)
qed

section \<open>Properties\<close>


end
