(* ===== verification/Frame.thy ===== *)
theory Frame
  imports Dates "HOL-Library.Sublist"
begin

text \<open>
  The two tables of the script and the date filter \<^verbatim>\<open>f_date\<close> (lines 19--20).
  A row of \<^verbatim>\<open>df_day0\<close> or \<^verbatim>\<open>df_hour0\<close> is a record holding the columns the
  script reads; both extend a common base row (date and the three counts), so
  the one \<^verbatim>\<open>f_date\<close> applies to both tables, as lines 153--154 apply it. A table
  is the list of its rows in file order. The table invariant is the data
  model's: \<^verbatim>\<open>cnt = casual + registered\<close>, counts non-negative, season and
  weather codes in 1..4. The lemmas show what \<^verbatim>\<open>f_date\<close> returns on every
  input, and the count identity of a table that meets the invariant, which the
  metric cards display.
\<close>

section \<open>Rows and tables\<close>

record base_row =
  dteday :: date
  casual :: int
  registered :: int
  cnt :: int

record day_row = base_row +
  season :: int
  weathersit :: int
  temp :: real
  hum :: real
  windspeed :: real

record hour_row = base_row +
  hr :: int
  time_of_day :: string

type_synonym 'a table = "'a base_row_scheme list"

definition row_ok :: "'a base_row_scheme \<Rightarrow> bool" where
  "row_ok r \<longleftrightarrow> valid_date (dteday r) \<and> 0 \<le> casual r \<and> 0 \<le> registered r \<and>
     cnt r = casual r + registered r"

definition day_row_ok :: "day_row \<Rightarrow> bool" where
  "day_row_ok r \<longleftrightarrow> row_ok r \<and> season r \<in> {1..4} \<and> weathersit r \<in> {1..4}"

definition table_ok :: "('r \<Rightarrow> bool) \<Rightarrow> 'r list \<Rightarrow> bool" where
  "table_ok ok rs \<longleftrightarrow> list_all ok rs"

lemmas frame_eval [model_eval] = row_ok_def day_row_ok_def table_ok_def

section \<open>The date filter\<close>

text \<open>
  \<^verbatim>\<open>df[(df["dteday"] >= str(start_date)) & (df["dteday"] <= str(end_date))]\<close>:
  each bound is printed with \<^verbatim>\<open>str\<close> and pandas converts the string back to a
  timestamp to compare it with the column; a string it cannot convert makes the
  comparison raise. The selection keeps the rows whose date lies between the
  two converted bounds, inclusive, in table order.
\<close>

definition f_date :: "'a table \<Rightarrow> date \<Rightarrow> date \<Rightarrow> 'a table result" where
  "f_date df start_date end_date =
     (case parse_iso_date (iso_date start_date) of
        None \<Rightarrow> Inl DateCompare
      | Some s \<Rightarrow>
          (case parse_iso_date (iso_date end_date) of
             None \<Rightarrow> Inl DateCompare
           | Some e \<Rightarrow> Inr (filter (\<lambda>r. s \<le> dteday r \<and> dteday r \<le> e) df)))"

lemmas f_date_eval [model_eval] = f_date_def

abbreviation in_range :: "date \<Rightarrow> date \<Rightarrow> 'a base_row_scheme \<Rightarrow> bool" where
  "in_range s e r \<equiv> s \<le> dteday r \<and> dteday r \<le> e"

lemma f_date_valid:
  "valid_date s \<Longrightarrow> valid_date e \<Longrightarrow> f_date df s e = Inr (filter (in_range s e) df)"
  by (simp add: f_date_def parse_iso_date_iso_date)

lemma sum_counts:
  "table_ok row_ok rs \<Longrightarrow>
     sum_list (map casual rs) + sum_list (map registered rs) = sum_list (map cnt rs)"
  by (induction rs) (auto simp: table_ok_def row_ok_def)

section \<open>Properties of the date filter\<close>

text \<open>
  C1: for the dates a \<^verbatim>\<open>datetime.date\<close> can hold, \<^verbatim>\<open>f_date\<close> returns, and its
  result holds exactly the rows of the table whose date lies in the closed
  interval, in table order (a subsequence of the table, so every row of the
  result is a row of the source).
\<close>

theorem f_date_selects:
  assumes "valid_date s" and "valid_date e"
  shows "\<exists>out. f_date df s e = Inr out \<and>
           (\<forall>r. r \<in> set out \<longleftrightarrow> r \<in> set df \<and> s \<le> dteday r \<and> dteday r \<le> e) \<and>
           subseq out df"
  using assms by (auto simp: f_date_valid)

theorem f_date_selects_witness:
  "\<exists>out. f_date [\<lparr>dteday = Date 2021 1 1, casual = 10, registered = 20, cnt = 30\<rparr>,
                  \<lparr>dteday = Date 2021 1 2, casual = 5, registered = 5, cnt = 10\<rparr>]
                 (Date 2021 1 2) (Date 2021 1 3) = Inr out \<and>
     (\<forall>r. r \<in> set out \<longleftrightarrow>
        r \<in> set [\<lparr>dteday = Date 2021 1 1, casual = 10, registered = 20, cnt = 30\<rparr>,
                  \<lparr>dteday = Date 2021 1 2, casual = 5, registered = 5, cnt = 10\<rparr>] \<and>
        Date 2021 1 2 \<le> dteday r \<and> dteday r \<le> Date 2021 1 3) \<and>
     subseq out [\<lparr>dteday = Date 2021 1 1, casual = 10, registered = 20, cnt = 30\<rparr>,
                 \<lparr>dteday = Date 2021 1 2, casual = 5, registered = 5, cnt = 10\<rparr>]"
proof -
  have v: "valid_date (Date 2021 1 2)" "valid_date (Date 2021 1 3)"
    by (simp_all add: date_eval)
  show ?thesis by (rule f_date_selects [OF v])
qed

text \<open>
  C2: a reversed interval (end before start) selects nothing and raises
  nothing: the script's filter gives an empty table.
\<close>

theorem f_date_reversed_empty:
  assumes "valid_date s" and "valid_date e" and "e < s"
  shows "f_date df s e = Inr []"
  using assms by (auto simp: f_date_valid filter_empty_conv)

theorem f_date_reversed_empty_witness:
  "f_date [\<lparr>dteday = Date 2021 1 1, casual = 10, registered = 20, cnt = 30\<rparr>]
      (Date 2021 1 3) (Date 2021 1 1) = Inr []"
proof -
  have v: "valid_date (Date 2021 1 3)" "valid_date (Date 2021 1 1)" by (simp_all add: date_eval)
  have "Date 2021 1 1 < Date 2021 1 3" by simp
  then show ?thesis by (rule f_date_reversed_empty [OF v])
qed

end
