(* ===== verification/Numeric.thy ===== *)
theory Numeric
  imports Prelude
begin

text \<open>
  The numeric primitives the script calls on columns, with the semantics of
  pandas, numpy and Python: the column mean (NaN, here \<open>None\<close>, on an empty
  column), Python's \<^verbatim>\<open>round\<close> of a numpy float, which rounds half to even,
  rounding to a number of decimals, and \<^verbatim>\<open>idxmax\<close>/\<^verbatim>\<open>idxmin\<close>, which return
  the first row holding the extreme value and raise on an empty column.
  Floats are modelled as exact reals: the model states what the code computes
  up to floating-point rounding.
\<close>

section \<open>Means\<close>

definition mean_of :: "int list \<Rightarrow> real" where
  "mean_of xs = real_of_int (sum_list xs) / real (length xs)"

text \<open>\<^verbatim>\<open>Series.mean()\<close>: NaN (\<open>None\<close>) for an empty column.\<close>

definition series_mean :: "int list \<Rightarrow> real option" where
  "series_mean xs = (if xs = [] then None else Some (mean_of xs))"

lemma length_times_mean_of:
  "xs \<noteq> [] \<Longrightarrow> real (length xs) * mean_of xs = real_of_int (sum_list xs)"
  by (simp add: mean_of_def)

section \<open>Rounding\<close>

text \<open>
  Python's \<^verbatim>\<open>round(x)\<close> of a numpy float and numpy's \<^verbatim>\<open>np.round\<close>: the nearest
  integer, and on a tie (fraction exactly one half) the even neighbour. This is
  not HOL's \<^const>\<open>round\<close>, which rounds ties upwards.
\<close>

definition py_round :: "real \<Rightarrow> int" where
  "py_round x =
     (let f = \<lfloor>x\<rfloor>; d = x - of_int f in
      if d < 1 / 2 then f else if 1 / 2 < d then f + 1 else if even f then f else f + 1)"

text \<open>\<^verbatim>\<open>round(x, n)\<close>: \<open>x\<close> scaled by \<open>10\<^sup>n\<close>, rounded half to even, scaled back.\<close>

definition round_nd :: "nat \<Rightarrow> real \<Rightarrow> real" where
  "round_nd n x = real_of_int (py_round (x * 10 ^ n)) / 10 ^ n"

lemmas numeric_eval [model_eval] = mean_of_def series_mean_def py_round_def round_nd_def

lemma py_round_cases:
  "py_round x = \<lfloor>x\<rfloor> \<or> py_round x = \<lfloor>x\<rfloor> + 1"
  unfolding py_round_def Let_def by (simp split: if_split)

lemma py_round_floor:
  "x - of_int \<lfloor>x\<rfloor> < 1 / 2 \<Longrightarrow> py_round x = \<lfloor>x\<rfloor>"
  by (simp add: py_round_def)

lemma py_round_ceil:
  "1 / 2 < x - of_int \<lfloor>x\<rfloor> \<Longrightarrow> py_round x = \<lfloor>x\<rfloor> + 1"
  by (simp add: py_round_def)

lemma py_round_tie:
  "x - of_int \<lfloor>x\<rfloor> = 1 / 2 \<Longrightarrow> py_round x = (if even \<lfloor>x\<rfloor> then \<lfloor>x\<rfloor> else \<lfloor>x\<rfloor> + 1)"
  by (simp add: py_round_def)

lemma py_round_dist: "\<bar>x - real_of_int (py_round x)\<bar> \<le> 1 / 2"
proof -
  let ?d = "x - of_int \<lfloor>x\<rfloor>"
  have d: "0 \<le> ?d" "?d < 1" by linarith+
  consider "?d < 1 / 2" | "1 / 2 < ?d" | "?d = 1 / 2" by linarith
  then show ?thesis
  proof cases
    case 1
    then show ?thesis using d by (simp add: py_round_floor)
  next
    case 2
    then show ?thesis using d by (simp add: py_round_ceil)
  next
    case 3
    then show ?thesis by (simp add: py_round_tie)
  qed
qed

lemma py_round_of_int [simp]: "py_round (real_of_int n) = n"
  by (simp add: py_round_def)

lemma py_round_mono:
  assumes "x \<le> y"
  shows "py_round x \<le> py_round y"
proof (rule ccontr)
  assume "\<not> py_round x \<le> py_round y"
  then have gt: "py_round y < py_round x" by simp
  have fx: "\<lfloor>x\<rfloor> \<le> \<lfloor>y\<rfloor>" using assms by (rule floor_mono)
  from gt py_round_cases [of x] py_round_cases [of y] fx
  have ry: "py_round y = \<lfloor>y\<rfloor>" and rx: "py_round x = \<lfloor>x\<rfloor> + 1" and f: "\<lfloor>x\<rfloor> = \<lfloor>y\<rfloor>"
    by auto
  have hx: "1 / 2 \<le> x - of_int \<lfloor>x\<rfloor>"
  proof (rule ccontr)
    assume "\<not> 1 / 2 \<le> x - of_int \<lfloor>x\<rfloor>"
    then have "py_round x = \<lfloor>x\<rfloor>" by (simp add: py_round_floor)
    with rx show False by simp
  qed
  have hy: "y - of_int \<lfloor>y\<rfloor> \<le> 1 / 2"
  proof (rule ccontr)
    assume "\<not> y - of_int \<lfloor>y\<rfloor> \<le> 1 / 2"
    then have "py_round y = \<lfloor>y\<rfloor> + 1" by (simp add: py_round_ceil)
    with ry show False by simp
  qed
  from hx hy assms f have tie: "x - of_int \<lfloor>x\<rfloor> = 1 / 2" and xy: "y = x" by linarith+
  from tie rx have "odd \<lfloor>x\<rfloor>" by (simp add: py_round_tie split: if_splits)
  moreover from tie xy ry have "even \<lfloor>x\<rfloor>" by (simp add: py_round_tie split: if_splits)
  ultimately show False by simp
qed

section \<open>Position of the extreme value\<close>

text \<open>
  \<^verbatim>\<open>idxmax\<close> scans the column and replaces the best row only on a strictly
  greater value, so it returns the first row holding the maximum; on an empty
  column it raises. \<^verbatim>\<open>df.loc[label]\<close> then returns that row, the labels of a
  table read by \<^verbatim>\<open>read_csv\<close> being unique.
\<close>

fun first_max :: "('r \<Rightarrow> 'v :: linorder) \<Rightarrow> 'r \<Rightarrow> 'r list \<Rightarrow> 'r" where
  "first_max f best [] = best"
| "first_max f best (r # rs) = first_max f (if f best < f r then r else best) rs"

fun first_min :: "('r \<Rightarrow> 'v :: linorder) \<Rightarrow> 'r \<Rightarrow> 'r list \<Rightarrow> 'r" where
  "first_min f best [] = best"
| "first_min f best (r # rs) = first_min f (if f r < f best then r else best) rs"

definition idxmax :: "('r \<Rightarrow> 'v :: linorder) \<Rightarrow> 'r list \<Rightarrow> 'r result" where
  "idxmax f rs = (case rs of [] \<Rightarrow> Inl EmptyArgmax | r # rs' \<Rightarrow> Inr (first_max f r rs'))"

definition idxmin :: "('r \<Rightarrow> 'v :: linorder) \<Rightarrow> 'r list \<Rightarrow> 'r result" where
  "idxmin f rs = (case rs of [] \<Rightarrow> Inl EmptyArgmax | r # rs' \<Rightarrow> Inr (first_min f r rs'))"

lemmas extreme_eval [model_eval] = idxmax_def idxmin_def

lemma first_max_split:
  "\<exists>ys zs. b # rs = ys @ first_max f b rs # zs \<and>
     (\<forall>y\<in>set ys. f y < f (first_max f b rs)) \<and> (\<forall>z\<in>set zs. f z \<le> f (first_max f b rs))"
proof (induction rs arbitrary: b)
  case Nil
  show ?case by (rule exI [of _ "[]"]) simp
next
  case (Cons r rs)
  show ?case
  proof (cases "f b < f r")
    case True
    obtain ys zs where s: "r # rs = ys @ first_max f r rs # zs" and
        lt: "\<forall>y\<in>set ys. f y < f (first_max f r rs)" and le: "\<forall>z\<in>set zs. f z \<le> f (first_max f r rs)"
      using Cons.IH [of r] by blast
    have "r \<in> set (ys @ first_max f r rs # zs)" using s by (metis list.set_intros(1))
    then have "f r \<le> f (first_max f r rs)" using lt le by fastforce
    with True lt have "\<forall>y\<in>set (b # ys). f y < f (first_max f r rs)" by auto
    moreover have "b # r # rs = (b # ys) @ first_max f r rs # zs" using s by simp
    moreover have "first_max f b (r # rs) = first_max f r rs" using True by simp
    ultimately show ?thesis using le by metis
  next
    case False
    obtain ys zs where s: "b # rs = ys @ first_max f b rs # zs" and
        lt: "\<forall>y\<in>set ys. f y < f (first_max f b rs)" and le: "\<forall>z\<in>set zs. f z \<le> f (first_max f b rs)"
      using Cons.IH [of b] by blast
    show ?thesis
    proof (cases ys)
      case Nil
      with s False le show ?thesis by (intro exI [of _ "[]"] exI [of _ "r # zs"]) auto
    next
      case (Cons y ys')
      from s Cons have b: "b = y" and rs: "rs = ys' @ first_max f b rs # zs" by auto
      from s lt Cons have "f b < f (first_max f b rs)" by auto
      with False lt Cons b have "\<forall>y\<in>set (b # r # ys'). f y < f (first_max f b rs)" by auto
      moreover have "b # r # rs = (b # r # ys') @ first_max f b rs # zs" using rs by simp
      moreover have "first_max f b (r # rs) = first_max f b rs" using False by simp
      ultimately show ?thesis using le by metis
    qed
  qed
qed

lemma first_min_split:
  "\<exists>ys zs. b # rs = ys @ first_min f b rs # zs \<and>
     (\<forall>y\<in>set ys. f (first_min f b rs) < f y) \<and> (\<forall>z\<in>set zs. f (first_min f b rs) \<le> f z)"
proof (induction rs arbitrary: b)
  case Nil
  show ?case by (rule exI [of _ "[]"]) simp
next
  case (Cons r rs)
  show ?case
  proof (cases "f r < f b")
    case True
    obtain ys zs where s: "r # rs = ys @ first_min f r rs # zs" and
        lt: "\<forall>y\<in>set ys. f (first_min f r rs) < f y" and le: "\<forall>z\<in>set zs. f (first_min f r rs) \<le> f z"
      using Cons.IH [of r] by blast
    have "r \<in> set (ys @ first_min f r rs # zs)" using s by (metis list.set_intros(1))
    then have "f (first_min f r rs) \<le> f r" using lt le by fastforce
    with True lt have "\<forall>y\<in>set (b # ys). f (first_min f r rs) < f y" by auto
    moreover have "b # r # rs = (b # ys) @ first_min f r rs # zs" using s by simp
    moreover have "first_min f b (r # rs) = first_min f r rs" using True by simp
    ultimately show ?thesis using le by metis
  next
    case False
    obtain ys zs where s: "b # rs = ys @ first_min f b rs # zs" and
        lt: "\<forall>y\<in>set ys. f (first_min f b rs) < f y" and le: "\<forall>z\<in>set zs. f (first_min f b rs) \<le> f z"
      using Cons.IH [of b] by blast
    show ?thesis
    proof (cases ys)
      case Nil
      with s False le show ?thesis by (intro exI [of _ "[]"] exI [of _ "r # zs"]) auto
    next
      case (Cons y ys')
      from s Cons have b: "b = y" and rs: "rs = ys' @ first_min f b rs # zs" by auto
      from s lt Cons have "f (first_min f b rs) < f b" by auto
      with False lt Cons b have "\<forall>y\<in>set (b # r # ys'). f (first_min f b rs) < f y" by auto
      moreover have "b # r # rs = (b # r # ys') @ first_min f b rs # zs" using rs by simp
      moreover have "first_min f b (r # rs) = first_min f b rs" using False by simp
      ultimately show ?thesis using le by metis
    qed
  qed
qed

text \<open>The row \<^verbatim>\<open>idxmax\<close> selects: every row before it is smaller, none after it greater.\<close>

lemma idxmax_split:
  "rs \<noteq> [] \<Longrightarrow> \<exists>ys r zs. rs = ys @ r # zs \<and> idxmax f rs = Inr r \<and>
     (\<forall>y\<in>set ys. f y < f r) \<and> (\<forall>z\<in>set zs. f z \<le> f r)"
  using first_max_split by (cases rs) (auto simp: idxmax_def)

lemma idxmin_split:
  "rs \<noteq> [] \<Longrightarrow> \<exists>ys r zs. rs = ys @ r # zs \<and> idxmin f rs = Inr r \<and>
     (\<forall>y\<in>set ys. f r < f y) \<and> (\<forall>z\<in>set zs. f r \<le> f z)"
  using first_min_split by (cases rs) (auto simp: idxmin_def)

lemma py_round_nonneg: "0 \<le> x \<Longrightarrow> 0 \<le> py_round x"
  using py_round_mono [of 0 x] by (simp add: py_round_def)

lemma mean_of_nonneg: "\<forall>x\<in>set xs. 0 \<le> x \<Longrightarrow> 0 \<le> mean_of xs"
  by (simp add: mean_of_def sum_list_nonneg)

end
