(* ===== verification/Groupby.thy ===== *)
theory Groupby
  imports Frame Numeric
begin

text \<open>
  The two aggregators \<^verbatim>\<open>f_season_cnt\<close> and \<^verbatim>\<open>f_time_cnt\<close> (lines 39--48) and
  the tables the page derives from them (lines 250--256). Both are one pattern:
  \<^verbatim>\<open>groupby\<close> (keys in ascending order), the mean of \<^verbatim>\<open>cnt\<close> per group, then
  \<^verbatim>\<open>sort_values(by="cnt", ascending=False)\<close>. pandas sorts descending by
  reversing the column, sorting it ascending and reversing the result; on the
  at most sixteen groups here numpy's default sort is an insertion sort, which
  is stable, so equal means keep the ascending key order. The generic
  definitions are stated over any key type and are instantiated with the
  season code and the time-of-day label.
\<close>

section \<open>Group-wise mean and descending sort\<close>

definition groupby_mean :: "('r \<Rightarrow> 'k :: linorder) \<Rightarrow> ('r \<Rightarrow> int) \<Rightarrow> 'r list \<Rightarrow> ('k \<times> real) list" where
  "groupby_mean key val rs =
     map (\<lambda>k. (k, mean_of (map val (filter (\<lambda>r. key r = k) rs)))) (sort (remdups (map key rs)))"

definition sort_values_desc :: "('a \<Rightarrow> 'b :: linorder) \<Rightarrow> 'a list \<Rightarrow> 'a list" where
  "sort_values_desc f xs = rev (sort_key f (rev xs))"

definition f_season_cnt :: "day_row list \<Rightarrow> (int \<times> real) list" where
  "f_season_cnt df = sort_values_desc snd (groupby_mean season cnt df)"

definition f_time_cnt :: "hour_row list \<Rightarrow> (string \<times> real) list" where
  "f_time_cnt df = sort_values_desc snd (groupby_mean time_of_day cnt df)"

section \<open>Tables and bar charts of the page\<close>

text \<open>
  Lines 250--252: the season table is rounded (\<^verbatim>\<open>round\<close> of a float column,
  half to even, the result still a float) and its codes replaced by names;
  \<^verbatim>\<open>Series.replace\<close> leaves a value outside the dictionary unchanged, so the
  label column holds either a code (\<open>Inl\<close>) or a name (\<open>Inr\<close>). Lines 255--256
  round the time-of-day table the same way.
\<close>

definition season_name :: "int \<Rightarrow> string option" where
  "season_name k =
     (if k = 1 then Some ''Springer'' else if k = 2 then Some ''Summer''
      else if k = 3 then Some ''Fall'' else if k = 4 then Some ''Winter'' else None)"

definition replace_season :: "int \<Rightarrow> int + string" where
  "replace_season k = (case season_name k of None \<Rightarrow> Inl k | Some s \<Rightarrow> Inr s)"

definition round_col :: "('k \<times> real) list \<Rightarrow> ('k \<times> real) list" where
  "round_col tbl = map (\<lambda>(k, m). (k, real_of_int (py_round m))) tbl"

definition season_cnt_table :: "day_row list \<Rightarrow> ((int + string) \<times> real) list" where
  "season_cnt_table df = map (\<lambda>(k, m). (replace_season k, m)) (round_col (f_season_cnt df))"

definition time_cnt_table :: "hour_row list \<Rightarrow> (string \<times> real) list" where
  "time_cnt_table df = round_col (f_time_cnt df)"

text \<open>
  Lines 65--99: each bar chart re-sorts its table ascending by value
  (\<^verbatim>\<open>sort_values(by='cnt', ascending=True)\<close>, again stable on so few rows)
  and draws one horizontal bar per row, labelled with \<^verbatim>\<open>round(width, 2)\<close>. The
  season chart puts the labels right-aligned; the time chart left-aligned on an
  inverted x axis with the category ticks on the right.
\<close>

record 'l bar_chart =
  bars :: "('l \<times> real \<times> real) list"
  label_align :: string
  x_inverted :: bool

definition bar_rows :: "('l \<times> real) list \<Rightarrow> ('l \<times> real \<times> real) list" where
  "bar_rows tbl = map (\<lambda>(l, w). (l, w, round_nd 2 w)) (sort_key snd tbl)"

definition plot_season_cnt :: "('l \<times> real) list \<Rightarrow> 'l bar_chart" where
  "plot_season_cnt tbl = \<lparr>bars = bar_rows tbl, label_align = ''right'', x_inverted = False\<rparr>"

definition plot_time_cnt :: "('l \<times> real) list \<Rightarrow> 'l bar_chart" where
  "plot_time_cnt tbl = \<lparr>bars = bar_rows tbl, label_align = ''left'', x_inverted = True\<rparr>"

lemmas groupby_eval [model_eval] = groupby_mean_def sort_values_desc_def f_season_cnt_def f_time_cnt_def
  season_name_def replace_season_def round_col_def season_cnt_table_def time_cnt_table_def
  bar_rows_def plot_season_cnt_def plot_time_cnt_def

section \<open>Facts on the descending sort\<close>

lemma mset_sort_values_desc [simp]: "mset (sort_values_desc f xs) = mset xs"
  by (simp add: sort_values_desc_def)

lemma set_sort_values_desc [simp]: "set (sort_values_desc f xs) = set xs"
  by (simp add: sort_values_desc_def)

lemma sorted_sort_values_desc: "sorted_desc f (sort_values_desc f xs)"
  by (simp add: sort_values_desc_def rev_map [symmetric])

lemma sort_values_desc_stable:
  "filter (\<lambda>y. f y = k) (sort_values_desc f xs) = filter (\<lambda>y. f y = k) xs"
  by (simp add: sort_values_desc_def rev_filter [symmetric] sort_key_stable)

lemma distinct_map_sort_values_desc:
  "distinct (map g (sort_values_desc f xs)) = distinct (map g xs)"
  by (rule mset_eq_imp_distinct_iff) (simp only: mset_map mset_sort_values_desc)

lemma sort_values_desc_unique:
  assumes "mset ys = mset xs" and "sorted_desc f ys"
    and "\<And>k. filter (\<lambda>y. f y = k) ys = filter (\<lambda>y. f y = k) xs"
  shows "sort_values_desc f xs = ys"
proof -
  have "sort_key f (rev xs) = rev ys"
  proof (rule properties_for_sort_key)
    show "mset (rev ys) = mset (rev xs)" using assms(1) by simp
    show "sorted (map f (rev ys))" using assms(2) by (simp add: rev_map)
    fix k assume "k \<in> set (rev ys)"
    show "filter (\<lambda>x. f k = f x) (rev ys) = filter (\<lambda>x. f k = f x) (rev xs)"
      using assms(3) [of "f k"] by (simp add: rev_filter [symmetric] eq_commute)
  qed
  then show ?thesis by (simp add: sort_values_desc_def)
qed

section \<open>Facts on the group-wise mean\<close>

lemma map_fst_groupby_mean [simp]:
  "map fst (groupby_mean key val rs) = sort (remdups (map key rs))"
  by (simp add: groupby_mean_def comp_def)

lemma fst_set_groupby_mean [simp]:
  "fst ` set (groupby_mean key val rs) = key ` set rs"
  by (simp add: groupby_mean_def image_image)

lemma groupby_mean_member:
  "(k, m) \<in> set (groupby_mean key val rs) \<longleftrightarrow>
     k \<in> key ` set rs \<and> m = mean_of (map val (filter (\<lambda>r. key r = k) rs))"
  by (auto simp: groupby_mean_def)

lemma group_nonempty:
  "k \<in> key ` set rs \<Longrightarrow> filter (\<lambda>r. key r = k) rs \<noteq> []"
  by (auto simp: filter_empty_conv)

lemma groupby_mean_weighted:
  "(\<Sum>(k, m)\<leftarrow>groupby_mean key val rs. real (length (filter (\<lambda>r. key r = k) rs)) * m) =
     real_of_int (sum_list (map val rs))"
proof -
  let ?g = "\<lambda>k. filter (\<lambda>r. key r = k) rs"
  have "(\<Sum>(k, m)\<leftarrow>groupby_mean key val rs. real (length (?g k)) * m) =
      (\<Sum>k\<leftarrow>sort (remdups (map key rs)). real (length (?g k)) * mean_of (map val (?g k)))"
    by (simp add: groupby_mean_def comp_def)
  also have "\<dots> = (\<Sum>k\<leftarrow>sort (remdups (map key rs)). real_of_int (sum_list (map val (?g k))))"
  proof (rule arg_cong [where f = sum_list], rule map_cong [OF refl])
    fix k assume "k \<in> set (sort (remdups (map key rs)))"
    then have "map val (?g k) \<noteq> []" by (auto simp: filter_empty_conv)
    then show "real (length (?g k)) * mean_of (map val (?g k)) = real_of_int (sum_list (map val (?g k)))"
      using length_times_mean_of [of "map val (?g k)"] by simp
  qed
  also have "\<dots> = real_of_int (\<Sum>k\<leftarrow>sort (remdups (map key rs)). sum_list (map val (?g k)))"
    by (simp add: sum_list_of_int [symmetric] comp_def)
  also have "\<dots> = real_of_int (sum_list (map val rs))"
    by (simp only: sum_list_partition_by_key_remdups)
  finally show ?thesis .
qed

lemma sorted_desc_mono_map:
  assumes "sorted_desc snd xs" and "mono g"
  shows "sorted_desc snd (map (\<lambda>(k, m). (k, g m)) xs)"
proof -
  have "sorted_wrt (\<lambda>a b. a \<ge> b) (map snd xs)"
    using assms(1) by (simp add: sorted_wrt_rev)
  then have "sorted_wrt (\<lambda>a b. a \<ge> b) (map (g \<circ> snd) xs)"
    using assms(2) by (auto simp: sorted_wrt_map intro: sorted_wrt_mono_rel [rotated] monoD)
  then show ?thesis
    by (simp add: sorted_wrt_rev case_prod_beta comp_def)
qed

lemma mono_py_round_real: "mono (\<lambda>m. real_of_int (py_round m))"
  by (auto intro!: monoI py_round_mono)

lemma round_nd_of_int [simp]: "round_nd 2 (real_of_int n) = real_of_int n"
proof -
  have "real_of_int n * 10 ^ 2 = real_of_int (n * 100)" by simp
  then show ?thesis by (simp only: round_nd_def py_round_of_int) simp
qed

section \<open>Properties of the aggregators\<close>

text \<open>
  C4: the season table has one row per season present in the selection, and
  the value of a season is the mean rental count of the selected days of that
  season.
\<close>

theorem f_season_cnt_groups:
  "distinct (map fst (f_season_cnt df)) \<and> set (map fst (f_season_cnt df)) = season ` set df \<and>
   (\<forall>k m. (k, m) \<in> set (f_season_cnt df) \<longleftrightarrow>
      k \<in> season ` set df \<and> m = mean_of (map cnt (filter (\<lambda>r. season r = k) df)))"
proof -
  have "distinct (map fst (f_season_cnt df))"
    by (simp add: f_season_cnt_def distinct_map_sort_values_desc)
  moreover have "set (map fst (f_season_cnt df)) = season ` set df"
    by (simp add: f_season_cnt_def fst_set_groupby_mean)
  moreover have "\<forall>k m. (k, m) \<in> set (f_season_cnt df) \<longleftrightarrow>
      k \<in> season ` set df \<and> m = mean_of (map cnt (filter (\<lambda>r. season r = k) df))"
    by (simp add: f_season_cnt_def groupby_mean_member)
  ultimately show ?thesis by blast
qed

text \<open>
  C5: the season table is in descending order of mean count, and seasons with
  equal means appear in ascending order of their code, the order of the
  grouping, since the descending sort is stable.
\<close>

theorem f_season_cnt_order:
  "sorted_desc snd (f_season_cnt df) \<and>
   (\<forall>v. sorted (map fst (filter (\<lambda>p. snd p = v) (f_season_cnt df))))"
proof -
  have "sorted (map fst (groupby_mean season cnt df))" by simp
  then have "\<forall>v. sorted (map fst (filter (\<lambda>p. snd p = v) (groupby_mean season cnt df)))"
    by (simp add: sorted_filter)
  then show ?thesis
    by (simp add: f_season_cnt_def sorted_sort_values_desc sort_values_desc_stable)
qed

text \<open>
  C6: pandas' descending sort is exactly the stable descending sort: its result
  is the one permutation of the input that is in descending order of the key
  and keeps the input order among equal keys.
\<close>

theorem sort_values_desc_iff:
  "sort_values_desc f xs = ys \<longleftrightarrow>
     mset ys = mset xs \<and> sorted_desc f ys \<and> (\<forall>k. filter (\<lambda>y. f y = k) ys = filter (\<lambda>y. f y = k) xs)"
  using sort_values_desc_unique [of ys xs f] sorted_sort_values_desc [of f xs]
    sort_values_desc_stable [of f _ xs] by auto

text \<open>
  C7: the group means are consistent with the whole selection: weighting each
  season's mean by the number of its days gives back the total rental count.
\<close>

theorem f_season_cnt_weighted:
  "(\<Sum>(k, m)\<leftarrow>f_season_cnt df. real (length (filter (\<lambda>r. season r = k) df)) * m) =
     real_of_int (sum_list (map cnt df))"
proof -
  have "(\<Sum>(k, m)\<leftarrow>f_season_cnt df. real (length (filter (\<lambda>r. season r = k) df)) * m) =
      (\<Sum>(k, m)\<leftarrow>groupby_mean season cnt df. real (length (filter (\<lambda>r. season r = k) df)) * m)"
    unfolding f_season_cnt_def by (rule sum_list_perm) simp
  then show ?thesis by (simp only: groupby_mean_weighted)
qed

text \<open>
  C8: the time-of-day table has one row per bucket present in the hourly
  selection, the value of each being the mean total count of that bucket's
  hourly rows; the rows are in descending order of mean, buckets with equal
  means in ascending order of their label.
\<close>

theorem f_time_cnt_spec:
  "distinct (map fst (f_time_cnt df)) \<and>
   (\<forall>k m. (k, m) \<in> set (f_time_cnt df) \<longleftrightarrow>
      k \<in> time_of_day ` set df \<and> m = mean_of (map cnt (filter (\<lambda>r. time_of_day r = k) df))) \<and>
   sorted_desc snd (f_time_cnt df) \<and>
   (\<forall>v. sorted (map fst (filter (\<lambda>p. snd p = v) (f_time_cnt df))))"
proof -
  have "distinct (map fst (f_time_cnt df))"
    by (simp add: f_time_cnt_def distinct_map_sort_values_desc)
  moreover have "\<forall>k m. (k, m) \<in> set (f_time_cnt df) \<longleftrightarrow>
      k \<in> time_of_day ` set df \<and> m = mean_of (map cnt (filter (\<lambda>r. time_of_day r = k) df))"
    by (simp add: f_time_cnt_def groupby_mean_member)
  moreover have "sorted (map fst (groupby_mean time_of_day cnt df))" by simp
  then have "\<forall>v. sorted (map fst (filter (\<lambda>p. snd p = v) (groupby_mean time_of_day cnt df)))"
    by (simp add: sorted_filter)
  ultimately show ?thesis
    by (simp add: f_time_cnt_def sorted_sort_values_desc sort_values_desc_stable)
qed

text \<open>
  C9: the season bar chart draws the rounded season table in ascending order
  of bar length, each row of the table exactly once, and each bar's label is
  its length: rounding to two decimals does not change the integer-valued
  means. The rounded table itself stays in descending order, rounding being
  monotone.
\<close>

theorem season_bars:
  "sorted_desc snd (season_cnt_table df) \<and>
   sorted (map (fst \<circ> snd) (bars (plot_season_cnt (season_cnt_table df)))) \<and>
   mset (map (\<lambda>(l, w, t). (l, w)) (bars (plot_season_cnt (season_cnt_table df)))) = mset (season_cnt_table df) \<and>
   map (\<lambda>(l, w, t). t) (bars (plot_season_cnt (season_cnt_table df))) =
     map (\<lambda>(l, w, t). w) (bars (plot_season_cnt (season_cnt_table df)))"
proof -
  have srt: "sorted_desc snd (round_col (f_season_cnt df))"
    unfolding round_col_def
    by (rule sorted_desc_mono_map [OF conjunct1 [OF f_season_cnt_order] mono_py_round_real])
  have "sorted_desc snd (season_cnt_table df)"
    using srt by (simp add: season_cnt_table_def round_col_def case_prod_beta comp_def)
  moreover have "sorted (map (fst \<circ> snd) (bars (plot_season_cnt (season_cnt_table df))))"
    by (simp add: plot_season_cnt_def bar_rows_def case_prod_beta comp_def)
  moreover have "mset (map (\<lambda>(l, w, t). (l, w)) (bars (plot_season_cnt (season_cnt_table df)))) =
      mset (season_cnt_table df)"
    by (simp add: plot_season_cnt_def bar_rows_def case_prod_beta comp_def flip: mset_map)
  moreover have "map (\<lambda>(l, w, t). t) (bars (plot_season_cnt (season_cnt_table df))) =
      map (\<lambda>(l, w, t). w) (bars (plot_season_cnt (season_cnt_table df)))"
    by (auto simp: plot_season_cnt_def bar_rows_def season_cnt_table_def round_col_def)
  ultimately show ?thesis by blast
qed


end
