(* ===== verification/Moments.thy ===== *)
theory Moments
  imports Numeric
begin

text \<open>
  Means and centred sums of a list of points \<open>(x, y)\<close>: the quantities from which
  scikit-learn's least-squares fit (\<^verbatim>\<open>LinearRegression.fit\<close>, line 108), its
  score (line 110) and pandas' Pearson correlation (\<^verbatim>\<open>df.corr()\<close>, line 56)
  are computed. Both the regression and the correlation theories build on the
  lemmas here: the decomposition of a sum of squared residuals around the means,
  the quadratic form of the centred residuals, and the Cauchy--Schwarz inequality
  for the centred sums, derived from the non-negativity of that quadratic.
\<close>

type_synonym points = "(real \<times> real) list"

definition avg :: "real list \<Rightarrow> real" where
  "avg xs = sum_list xs / real (length xs)"

definition mean_x :: "points \<Rightarrow> real" where
  "mean_x pts = avg (map fst pts)"

definition mean_y :: "points \<Rightarrow> real" where
  "mean_y pts = avg (map snd pts)"

definition sxx :: "points \<Rightarrow> real" where
  "sxx pts = (\<Sum>p\<leftarrow>pts. (fst p - mean_x pts)\<^sup>2)"

definition syy :: "points \<Rightarrow> real" where
  "syy pts = (\<Sum>p\<leftarrow>pts. (snd p - mean_y pts)\<^sup>2)"

definition sxy :: "points \<Rightarrow> real" where
  "sxy pts = (\<Sum>p\<leftarrow>pts. (fst p - mean_x pts) * (snd p - mean_y pts))"

text \<open>The sum of squared residuals of the line \<open>y = b0 + b1 x\<close>.\<close>

definition sse :: "points \<Rightarrow> real \<Rightarrow> real \<Rightarrow> real" where
  "sse pts b0 b1 = (\<Sum>p\<leftarrow>pts. (snd p - (b0 + b1 * fst p))\<^sup>2)"

lemmas moments_eval [model_eval] = avg_def mean_x_def mean_y_def sxx_def syy_def sxy_def sse_def

section \<open>Centred sums\<close>

lemma sum_list_sub_avg:
  "xs \<noteq> [] \<Longrightarrow> (\<Sum>x\<leftarrow>xs. x - avg xs) = 0"
  by (simp add: avg_def sum_list_subtractf sum_list_triv)

lemma sum_centred_x: "pts \<noteq> [] \<Longrightarrow> (\<Sum>p\<leftarrow>pts. fst p - mean_x pts) = 0"
  using sum_list_sub_avg [of "map fst pts"] by (simp add: mean_x_def comp_def)

lemma sum_centred_y: "pts \<noteq> [] \<Longrightarrow> (\<Sum>p\<leftarrow>pts. snd p - mean_y pts) = 0"
  using sum_list_sub_avg [of "map snd pts"] by (simp add: mean_y_def comp_def)

lemma sxx_nonneg: "0 \<le> sxx pts"
  by (simp add: sxx_def)

lemma syy_nonneg: "0 \<le> syy pts"
  by (simp add: syy_def)

lemma sse_nonneg: "0 \<le> sse pts b0 b1"
  by (simp add: sse_def)

lemma sxx_zero_iff:
  "sxx pts = 0 \<longleftrightarrow> (\<forall>p\<in>set pts. fst p = mean_x pts)"
proof -
  have "sxx pts = 0 \<longleftrightarrow> (\<forall>q\<in>set (map (\<lambda>p. (fst p - mean_x pts)\<^sup>2) pts). q = 0)"
    unfolding sxx_def by (rule sum_list_nonneg_eq_0_iff) auto
  then show ?thesis by auto
qed

lemma sxx_zero_sxy:
  assumes "sxx pts = 0"
  shows "sxy pts = 0"
proof -
  have eq: "map (\<lambda>p. (fst p - mean_x pts) * (snd p - mean_y pts)) pts = map (\<lambda>p. 0) pts"
    using assms by (intro map_cong) (auto simp: sxx_zero_iff)
  show ?thesis unfolding sxy_def eq by simp
qed

section \<open>Residuals around the means\<close>

text \<open>
  The residual of any line splits into the centred residual of its slope and the
  distance of the line from the point of means; the cross term sums to zero.
\<close>

lemma sse_centred:
  assumes "pts \<noteq> []"
  shows "sse pts b0 b1 =
    (\<Sum>p\<leftarrow>pts. ((snd p - mean_y pts) - b1 * (fst p - mean_x pts))\<^sup>2) +
    real (length pts) * (mean_y pts - b0 - b1 * mean_x pts)\<^sup>2"
proof -
  let ?mx = "mean_x pts" and ?my = "mean_y pts"
  let ?u = "\<lambda>p. (snd p - ?my) - b1 * (fst p - ?mx)" and ?d = "?my - b0 - b1 * ?mx"
  have pt: "(snd p - (b0 + b1 * fst p))\<^sup>2 = (?u p)\<^sup>2 + (2 * ?d) * ?u p + ?d\<^sup>2" for p
    by (simp add: power2_eq_square algebra_simps)
  have "(\<Sum>p\<leftarrow>pts. ?u p) = (\<Sum>p\<leftarrow>pts. snd p - ?my) - b1 * (\<Sum>p\<leftarrow>pts. fst p - ?mx)"
    by (simp add: sum_list_subtractf sum_list_const_mult)
  also have "\<dots> = 0" using assms by (simp add: sum_centred_x sum_centred_y)
  finally have u0: "(\<Sum>p\<leftarrow>pts. ?u p) = 0" .
  have "sse pts b0 b1 = (\<Sum>p\<leftarrow>pts. (?u p)\<^sup>2 + (2 * ?d) * ?u p + ?d\<^sup>2)"
    by (simp only: sse_def pt)
  also have "\<dots> = (\<Sum>p\<leftarrow>pts. (?u p)\<^sup>2) + (2 * ?d) * (\<Sum>p\<leftarrow>pts. ?u p) + real (length pts) * ?d\<^sup>2"
    by (simp only: sum_list_addf sum_list_const_mult sum_list_triv)
  finally show ?thesis using u0 by simp
qed

lemma centred_quadratic:
  "(\<Sum>p\<leftarrow>pts. ((snd p - mean_y pts) - t * (fst p - mean_x pts))\<^sup>2) =
     syy pts - 2 * t * sxy pts + t\<^sup>2 * sxx pts"
proof -
  let ?a = "\<lambda>p. fst p - mean_x pts" and ?b = "\<lambda>p. snd p - mean_y pts"
  have pt: "(?b p - t * ?a p)\<^sup>2 = (?b p)\<^sup>2 - (2 * t) * (?a p * ?b p) + t\<^sup>2 * (?a p)\<^sup>2" for p
    by (simp add: power2_eq_square algebra_simps)
  show ?thesis
    by (simp only: pt sum_list_addf sum_list_subtractf sum_list_const_mult sxx_def syy_def sxy_def)
qed

text \<open>
  The centred quadratic is least at the slope \<open>sxy / sxx\<close>, by the amount
  \<open>sxx (t - sxy / sxx)\<^sup>2\<close>.
\<close>

lemma centred_quadratic_min:
  assumes "sxx pts \<noteq> 0"
  shows "syy pts - 2 * t * sxy pts + t\<^sup>2 * sxx pts =
    (syy pts - (sxy pts)\<^sup>2 / sxx pts) + sxx pts * (t - sxy pts / sxx pts)\<^sup>2"
  using assms by (simp add: power2_eq_square field_simps)

theorem centred_cauchy_schwarz: "(sxy pts)\<^sup>2 \<le> sxx pts * syy pts"
proof (cases "sxx pts = 0")
  case True
  then show ?thesis by (simp add: sxx_zero_sxy)
next
  case False
  let ?t = "sxy pts / sxx pts"
  have "0 \<le> (\<Sum>p\<leftarrow>pts. ((snd p - mean_y pts) - ?t * (fst p - mean_x pts))\<^sup>2)"
    by (rule sum_list_squares_nonneg)
  also have "\<dots> = syy pts - 2 * ?t * sxy pts + ?t\<^sup>2 * sxx pts"
    by (rule centred_quadratic)
  also have "\<dots> = (syy pts - (sxy pts)\<^sup>2 / sxx pts) + sxx pts * (?t - ?t)\<^sup>2"
    by (rule centred_quadratic_min [OF False])
  also have "\<dots> = syy pts - (sxy pts)\<^sup>2 / sxx pts"
    by simp
  finally have "(sxy pts)\<^sup>2 / sxx pts \<le> syy pts" by simp
  moreover have "0 < sxx pts" using False sxx_nonneg [of pts] by simp
  ultimately show ?thesis by (simp add: divide_le_eq mult.commute)
qed

end
