(* ===== verification/Regression.thy ===== *)
theory Regression
  imports Frame Moments
begin

text \<open>
  The regression tab, \<^verbatim>\<open>lr_plot\<close> (lines 102--136), called for the three
  weather columns (lines 283--290). scikit-learn's \<^verbatim>\<open>LinearRegression.fit\<close>
  centres both columns and solves the least-squares problem with \<^verbatim>\<open>lstsq\<close>,
  whose minimum-norm solution is the slope \<open>sxy / sxx\<close>, or \<open>0\<close> when the
  covariate has no spread; the intercept puts the line through the point of
  means; zero rows raise. \<^verbatim>\<open>score\<close> is \<^verbatim>\<open>r2_score\<close>: NaN under two rows, \<open>1\<close>
  when the residuals vanish, \<open>0\<close> when only the total variation does, else
  \<open>1 - SS_res / SS_tot\<close>. The chart draws the points, the line over
  \<^verbatim>\<open>np.linspace(min, max, len(df))\<close>, and three annotations stacked from the
  largest count downwards.
\<close>

section \<open>Fit and score\<close>

record lr_model =
  coef :: real
  intercept :: real

definition lr_fit :: "points \<Rightarrow> lr_model result" where
  "lr_fit pts =
     (if pts = [] then Inl NoSamples
      else let b1 = (if sxx pts = 0 then 0 else sxy pts / sxx pts)
           in Inr \<lparr>coef = b1, intercept = mean_y pts - b1 * mean_x pts\<rparr>)"

definition predict :: "lr_model \<Rightarrow> real \<Rightarrow> real" where
  "predict m x = intercept m + coef m * x"

definition r2_score :: "real list \<Rightarrow> real list \<Rightarrow> real option" where
  "r2_score ys ps =
     (if length ys < 2 then None
      else let num = (\<Sum>q\<leftarrow>zip ys ps. (fst q - snd q)\<^sup>2);
               den = (\<Sum>y\<leftarrow>ys. (y - avg ys)\<^sup>2)
           in Some (if num = 0 then 1 else if den = 0 then 0 else 1 - num / den))"

definition lr_score :: "lr_model \<Rightarrow> points \<Rightarrow> real option" where
  "lr_score m pts = r2_score (map snd pts) (map (\<lambda>p. predict m (fst p)) pts)"

section \<open>The chart\<close>

text \<open>
  \<^verbatim>\<open>np.linspace(start, stop, num)\<close>: \<open>num\<close> points \<open>start + i * step\<close> with
  \<open>step = (stop - start) / (num - 1)\<close>, the last one set to \<open>stop\<close>; one point
  is \<open>[start]\<close>, none is \<open>[]\<close>.
\<close>

definition linspace :: "real \<Rightarrow> real \<Rightarrow> nat \<Rightarrow> real list" where
  "linspace a b n =
     (if n = 0 then [] else if n = 1 then [a]
      else map (\<lambda>i. real i * ((b - a) / real (n - 1)) + a) [0..<n - 1] @ [b])"

datatype weather_var = Temp | Hum | Windspeed

fun weather_col :: "weather_var \<Rightarrow> day_row \<Rightarrow> real" where
  "weather_col Temp r = temp r"
| "weather_col Hum r = hum r"
| "weather_col Windspeed r = windspeed r"

definition lr_points :: "weather_var \<Rightarrow> day_row list \<Rightarrow> points" where
  "lr_points v df = map (\<lambda>r. (weather_col v r, real_of_int (cnt r))) df"

record lr_chart =
  scatter :: points
  fit_x :: "real list"
  fit_y :: "real list"
  label_x :: real
  label_y :: "real list"
  intercept_label :: real
  slope_label :: real
  r2_label :: "real option"
  x_title :: string

definition lr_plot :: "day_row list \<Rightarrow> weather_var \<Rightarrow> string \<Rightarrow> lr_chart result" where
  "lr_plot df v xlab =
     (let pts = lr_points v df in
      case lr_fit pts of
        Inl e \<Rightarrow> Inl e
      | Inr m \<Rightarrow>
          (let r2 = lr_score m pts;
               start = Min (set (map fst pts)); stop = Max (set (map fst pts));
               xseq = linspace start stop (length df);
               ymax = Max (set (map snd pts)); ymin = Min (set (map snd pts))
           in Inr \<lparr>scatter = pts, fit_x = xseq, fit_y = map (\<lambda>x. intercept m + coef m * x) xseq,
                   label_x = start,
                   label_y = [ymax, ymax - (ymax - ymin) / 10, ymax - (ymax - ymin) / 5],
                   intercept_label = round_nd 2 (intercept m), slope_label = round_nd 2 (coef m),
                   r2_label = map_option (round_nd 2) r2, x_title = xlab\<rparr>))"

lemmas regression_eval [model_eval] = lr_fit_def predict_def r2_score_def lr_score_def
  linspace_def lr_points_def lr_plot_def

section \<open>Facts on the fit\<close>

lemma lr_fit_Inr:
  "pts \<noteq> [] \<Longrightarrow> lr_fit pts = Inr \<lparr>coef = (if sxx pts = 0 then 0 else sxy pts / sxx pts),
     intercept = mean_y pts - (if sxx pts = 0 then 0 else sxy pts / sxx pts) * mean_x pts\<rparr>"
  by (simp add: lr_fit_def Let_def)

lemma sxx_short: "length pts \<le> 1 \<Longrightarrow> sxx pts = 0"
  by (cases pts) (auto simp: sxx_def mean_x_def avg_def)

lemma sse_fit:
  assumes "pts \<noteq> []"
  shows "sse pts (mean_y pts - t * mean_x pts) t = syy pts - 2 * t * sxy pts + t\<^sup>2 * sxx pts"
  using sse_centred [OF assms, of "mean_y pts - t * mean_x pts" t] by (simp add: centred_quadratic)

lemma sse_lower:
  assumes "pts \<noteq> []"
  shows "syy pts - 2 * t * sxy pts + t\<^sup>2 * sxx pts \<le> sse pts b0 t"
  using sse_centred [OF assms, of b0 t] by (simp add: centred_quadratic)

lemma lr_score_eq:
  "lr_score m pts =
     (if length pts < 2 then None
      else let num = sse pts (intercept m) (coef m); den = syy pts
           in Some (if num = 0 then 1 else if den = 0 then 0 else 1 - num / den))"
proof -
  have "(\<Sum>q\<leftarrow>zip (map snd pts) (map (\<lambda>p. predict m (fst p)) pts). (fst q - snd q)\<^sup>2) =
      sse pts (intercept m) (coef m)"
    by (simp add: zip_map_map zip_same_conv_map sse_def predict_def comp_def)
  moreover have "(\<Sum>y\<leftarrow>map snd pts. (y - avg (map snd pts))\<^sup>2) = syy pts"
    by (simp add: syy_def mean_y_def comp_def)
  ultimately show ?thesis by (simp add: lr_score_def r2_score_def)
qed


lemma avg_affine:
  "xs \<noteq> [] \<Longrightarrow> avg (map (\<lambda>x. c0 + c1 * f x) xs) = c0 + c1 * avg (map f xs)"
  by (simp add: avg_def sum_list_addf sum_list_const_mult sum_list_triv field_simps comp_def)

lemma avg_const_on:
  assumes "xs \<noteq> []" and "\<And>x. x \<in> set xs \<Longrightarrow> f x = c"
  shows "avg (map f xs) = c"
proof -
  have "sum_list (map f xs) = sum_list (map (\<lambda>_. c) xs)" by (rule sum_list_cong) (rule assms(2))
  with assms(1) show ?thesis by (simp add: avg_def sum_list_triv)
qed

lemma lr_fit_slope_sse:
  assumes "lr_fit pts = Inr m"
  shows "pts \<noteq> [] \<and> intercept m = mean_y pts - coef m * mean_x pts \<and>
    sse pts (intercept m) (coef m) = syy pts - (if sxx pts = 0 then 0 else (sxy pts)\<^sup>2 / sxx pts)"
proof -
  from assms have ne: "pts \<noteq> []" by (auto simp: lr_fit_def)
  let ?t = "if sxx pts = 0 then 0 else sxy pts / sxx pts"
  from assms ne have m: "m = \<lparr>coef = ?t, intercept = mean_y pts - ?t * mean_x pts\<rparr>"
    by (simp add: lr_fit_Inr)
  have "sse pts (mean_y pts - ?t * mean_x pts) ?t = syy pts - 2 * ?t * sxy pts + ?t\<^sup>2 * sxx pts"
    by (rule sse_fit [OF ne])
  also have "\<dots> = syy pts - (if sxx pts = 0 then 0 else (sxy pts)\<^sup>2 / sxx pts)"
    by (simp add: power2_eq_square)
  finally show ?thesis using ne m by simp
qed

lemma lr_fit_minimal:
  assumes "lr_fit pts = Inr m"
  shows "sse pts (intercept m) (coef m) \<le> sse pts b0 b1"
proof -
  from lr_fit_slope_sse [OF assms] have ne: "pts \<noteq> []"
    and fit: "sse pts (intercept m) (coef m) = syy pts - (if sxx pts = 0 then 0 else (sxy pts)\<^sup>2 / sxx pts)"
    by auto
  have low: "syy pts - 2 * b1 * sxy pts + b1\<^sup>2 * sxx pts \<le> sse pts b0 b1"
    by (rule sse_lower [OF ne])
  show ?thesis
  proof (cases "sxx pts = 0")
    case True
    with fit low show ?thesis by (simp add: sxx_zero_sxy)
  next
    case False
    have "syy pts - (sxy pts)\<^sup>2 / sxx pts \<le> syy pts - 2 * b1 * sxy pts + b1\<^sup>2 * sxx pts"
      using centred_quadratic_min [OF False, of b1] sxx_nonneg [of pts] by simp
    with False fit low show ?thesis by simp
  qed
qed

lemma lr_fit_sse_le_syy:
  "lr_fit pts = Inr m \<Longrightarrow> sse pts (intercept m) (coef m) \<le> syy pts"
proof -
  assume fit: "lr_fit pts = Inr m"
  then have ne: "pts \<noteq> []" by (auto simp: lr_fit_def)
  have "sse pts (mean_y pts - 0 * mean_x pts) 0 = syy pts"
    using sse_fit [OF ne, of 0] by simp
  then show ?thesis using lr_fit_minimal [OF fit, of "mean_y pts - 0 * mean_x pts" 0] by simp
qed

text \<open>
  C10: on points that lie exactly on a line \<open>y = c0 + c1 x\<close> with a covariate
  that varies, the fit recovers the line and the score is 1.
\<close>

theorem lr_fit_exact_line:
  assumes line: "\<forall>p\<in>set pts. snd p = c0 + c1 * fst p" and spread: "sxx pts \<noteq> 0"
  shows "lr_fit pts = Inr \<lparr>coef = c1, intercept = c0\<rparr> \<and>
         lr_score \<lparr>coef = c1, intercept = c0\<rparr> pts = Some 1"
proof -
  have ne: "pts \<noteq> []" using spread by (auto simp: sxx_def)
  have len: "\<not> length pts < 2" using spread sxx_short [of pts] by linarith
  have ys: "map snd pts = map (\<lambda>p. c0 + c1 * fst p) pts"
    using line by simp
  have my: "mean_y pts = c0 + c1 * mean_x pts"
    using ne by (simp add: mean_y_def mean_x_def ys avg_affine)
  have "sxy pts = (\<Sum>p\<leftarrow>pts. c1 * (fst p - mean_x pts)\<^sup>2)"
    unfolding sxy_def using line by (intro sum_list_cong) (auto simp: my power2_eq_square algebra_simps)
  then have "sxy pts = c1 * sxx pts"
    by (simp add: sxx_def sum_list_const_mult)
  then have fit: "lr_fit pts = Inr \<lparr>coef = c1, intercept = c0\<rparr>"
    using ne spread by (simp add: lr_fit_Inr my)
  have "sse pts c0 c1 = (\<Sum>p\<leftarrow>pts. 0)"
    unfolding sse_def using line by (intro sum_list_cong) auto
  then have "sse pts c0 c1 = 0" by simp
  with len fit show ?thesis by (simp add: lr_score_eq)
qed

theorem lr_fit_exact_line_witness:
  "lr_fit [(0, 3), (1, 5), (2, 7)] = Inr \<lparr>coef = 2, intercept = 3\<rparr> \<and>
   lr_score \<lparr>coef = 2, intercept = 3\<rparr> [(0, 3), (1, 5), (2, 7)] = Some 1"
proof -
  have line: "\<forall>p\<in>set [(0::real, 3::real), (1, 5), (2, 7)]. snd p = 3 + 2 * fst p" by simp
  have spread: "sxx [(0::real, 3::real), (1, 5), (2, 7)] \<noteq> 0"
    by (simp add: sxx_def mean_x_def avg_def)
  show ?thesis using lr_fit_exact_line [OF line spread] .
qed

text \<open>
  C11: when every day has the same count \<open>c\<close> (two rows or more), the fitted
  slope is 0, the intercept is \<open>c\<close>, and the score is 1: the residuals vanish,
  and \<^verbatim>\<open>r2_score\<close> reports a perfect fit although the total variation is zero.
\<close>

theorem lr_fit_constant_count:
  assumes two: "2 \<le> length pts" and const: "\<forall>p\<in>set pts. snd p = c"
  shows "\<exists>m. lr_fit pts = Inr m \<and> coef m = 0 \<and> intercept m = c \<and> lr_score m pts = Some 1"
proof -
  have ne: "pts \<noteq> []" using two by auto
  have my: "mean_y pts = c"
    unfolding mean_y_def using ne const by (intro avg_const_on) auto
  have "sxy pts = (\<Sum>p\<leftarrow>pts. 0)"
    unfolding sxy_def using const by (intro sum_list_cong) (auto simp: my)
  then have sxy0: "sxy pts = 0" by simp
  let ?m = "\<lparr>coef = 0, intercept = c\<rparr>"
  have fit: "lr_fit pts = Inr ?m" using ne by (simp add: lr_fit_Inr sxy0 my)
  have "sse pts c 0 = (\<Sum>p\<leftarrow>pts. 0)"
    unfolding sse_def using const by (intro sum_list_cong) auto
  then have "sse pts c 0 = 0" by simp
  then have "lr_score ?m pts = Some 1" using two by (simp add: lr_score_eq)
  with fit show ?thesis by auto
qed

theorem lr_fit_constant_count_witness:
  "\<exists>m. lr_fit [(1, 40), (2, 40)] = Inr m \<and> coef m = 0 \<and> intercept m = 40 \<and>
       lr_score m [(1, 40), (2, 40)] = Some 1"
proof -
  have two: "2 \<le> length [(1::real, 40::real), (2, 40)]" by simp
  have const: "\<forall>p\<in>set [(1::real, 40::real), (2, 40)]. snd p = 40" by simp
  show ?thesis using lr_fit_constant_count [OF two const] .
qed

text \<open>
  C12: the fit is a least-squares line: on any non-empty selection it returns,
  and no line has a smaller sum of squared residuals.
\<close>

theorem lr_fit_least_squares:
  assumes "pts \<noteq> []"
  shows "\<exists>m. lr_fit pts = Inr m \<and> (\<forall>b0 b1. sse pts (intercept m) (coef m) \<le> sse pts b0 b1)"
proof -
  from assms obtain m where fit: "lr_fit pts = Inr m" by (auto simp: lr_fit_Inr)
  then show ?thesis using lr_fit_minimal [OF fit] by blast
qed

theorem lr_fit_least_squares_witness:
  "\<exists>m. lr_fit [(0, 1), (1, 0), (2, 4)] = Inr m \<and>
     (\<forall>b0 b1. sse [(0, 1), (1, 0), (2, 4)] (intercept m) (coef m) \<le> sse [(0, 1), (1, 0), (2, 4)] b0 b1)"
proof -
  have "[(0::real, 1::real), (1, 0), (2, 4)] \<noteq> []" by simp
  then show ?thesis by (rule lr_fit_least_squares)
qed

text \<open>
  C13: on two rows or more the score is defined and lies between 0 and 1.
\<close>

theorem lr_score_unit_interval:
  assumes two: "2 \<le> length pts"
  shows "\<exists>m r. lr_fit pts = Inr m \<and> lr_score m pts = Some r \<and> 0 \<le> r \<and> r \<le> 1"
proof -
  from two have ne: "pts \<noteq> []" by auto
  then obtain m where fit: "lr_fit pts = Inr m" by (auto simp: lr_fit_Inr)
  let ?num = "sse pts (intercept m) (coef m)"
  have n0: "0 \<le> ?num" by (rule sse_nonneg)
  have nd: "?num \<le> syy pts" by (rule lr_fit_sse_le_syy [OF fit])
  define r where "r = (if ?num = 0 then 1 else if syy pts = 0 then 0 else 1 - ?num / syy pts)"
  have sc: "lr_score m pts = Some r" using two by (simp add: lr_score_eq r_def)
  have "0 \<le> r \<and> r \<le> 1"
  proof (cases "?num = 0 \<or> syy pts = 0")
    case True
    then show ?thesis by (auto simp: r_def)
  next
    case False
    then have "0 < syy pts" using syy_nonneg [of pts] by simp
    with n0 nd False show ?thesis by (simp add: r_def divide_le_eq_1 field_simps)
  qed
  with fit sc show ?thesis by blast
qed

theorem lr_score_unit_interval_witness:
  "\<exists>m r. lr_fit [(0, 1), (1, 0), (2, 4)] = Inr m \<and> lr_score m [(0, 1), (1, 0), (2, 4)] = Some r \<and>
     0 \<le> r \<and> r \<le> 1"
proof -
  have "2 \<le> length [(0::real, 1::real), (1, 0), (2, 4)]" by simp
  then show ?thesis by (rule lr_score_unit_interval)
qed



lemma linspace_grid:
  assumes "2 \<le> n"
  shows "linspace a b n = map (\<lambda>i. a + real i * ((b - a) / real (n - 1))) [0..<n]"
proof -
  obtain k where k: "n = Suc k" "1 \<le> k" using assms by (cases n) auto
  have "a + real k * ((b - a) / real k) = b" using k by simp
  then show ?thesis using k by (simp add: linspace_def algebra_simps)
qed

lemma length_linspace [simp]: "length (linspace a b n) = n"
  by (simp add: linspace_def)

lemma linspace_within:
  assumes "a \<le> b" and "x \<in> set (linspace a b n)"
  shows "a \<le> x \<and> x \<le> b"
proof (cases "2 \<le> n")
  case False
  then have "n = 0 \<or> n = 1" by auto
  with assms show ?thesis by (auto simp: linspace_def)
next
  case True
  from assms(2) obtain i where i: "i < n" and xi: "x = a + real i * ((b - a) / real (n - 1))"
    by (auto simp: linspace_grid [OF True])
  have step: "0 \<le> (b - a) / real (n - 1)" using assms(1) by simp
  have "real i \<le> real (n - 1)" using i by simp
  then have "real i * ((b - a) / real (n - 1)) \<le> real (n - 1) * ((b - a) / real (n - 1))"
    using step by (rule mult_right_mono)
  also have "\<dots> = b - a" using True by simp
  finally have up: "real i * ((b - a) / real (n - 1)) \<le> b - a" .
  have lo: "0 \<le> real i * ((b - a) / real (n - 1))" using step by (rule mult_nonneg_nonneg [OF of_nat_0_le_iff])
  define t where "t = real i * ((b - a) / real (n - 1))"
  from up lo xi have "t \<le> b - a" "0 \<le> t" "x = a + t" by (simp_all add: t_def)
  then show ?thesis by simp
qed

text \<open>
  C14: for two points or more, \<^verbatim>\<open>linspace\<close> is the even grid from \<open>a\<close> to \<open>b\<close>
  (setting the last point to \<open>b\<close> agrees with the grid), starts at \<open>a\<close>, ends at
  \<open>b\<close>, and stays within \<open>[a, b]\<close> when \<open>a \<le> b\<close>.
\<close>

theorem linspace_even_grid:
  assumes "2 \<le> n"
  shows "linspace a b n = map (\<lambda>i. a + real i * ((b - a) / real (n - 1))) [0..<n] \<and>
    hd (linspace a b n) = a \<and> last (linspace a b n) = b \<and>
    (a \<le> b \<longrightarrow> (\<forall>x\<in>set (linspace a b n). a \<le> x \<and> x \<le> b))"
proof -
  have g: "linspace a b n = map (\<lambda>i. a + real i * ((b - a) / real (n - 1))) [0..<n]"
    by (rule linspace_grid [OF assms])
  have hd: "hd (linspace a b n) = a" using assms by (simp add: g hd_map upt_conv_Cons)
  have last: "last (linspace a b n) = b" using assms by (simp add: linspace_def)
  have bnd: "a \<le> x \<and> x \<le> b" if "a \<le> b" and "x \<in> set (linspace a b n)" for x
    using that by (rule linspace_within)
  show ?thesis using g hd last bnd by blast
qed

theorem linspace_even_grid_witness:
  "linspace 0 1 3 = map (\<lambda>i. 0 + real i * ((1 - 0) / real (3 - 1))) [0..<3] \<and>
    hd (linspace 0 1 3) = 0 \<and> last (linspace 0 1 3) = 1 \<and>
    list_all (\<lambda>x. 0 \<le> x \<and> x \<le> 1) (linspace 0 1 (3::nat))"
proof -
  have "2 \<le> (3::nat)" by simp
  from linspace_even_grid [OF this, of 0 1]
  have g: "linspace 0 1 3 = map (\<lambda>i. 0 + real i * ((1 - 0) / real (3 - 1))) [0..<3]"
    and h: "hd (linspace 0 1 3) = 0" and l: "last (linspace 0 1 3) = (1::real)"
    and b: "0 \<le> (1::real) \<longrightarrow> (\<forall>x\<in>set (linspace 0 1 3). 0 \<le> x \<and> x \<le> 1)"
    by blast+
  from b have "\<forall>x\<in>set (linspace 0 1 3). 0 \<le> x \<and> x \<le> (1::real)" by simp
  then have "list_all (\<lambda>x. 0 \<le> x \<and> x \<le> 1) (linspace 0 1 (3::nat))"
    unfolding list_all_iff .
  with g h l show ?thesis by blast
qed

lemma Min_le_Max_set: "xs \<noteq> [] \<Longrightarrow> Min (set xs) \<le> Max (set (xs :: real list))"
  by (simp add: Max_ge Min_le_iff)

text \<open>
  C15: on a non-empty selection the regression chart is drawn: the fitted line
  is the model's prediction at \<open>len(df)\<close> evenly spread points, all within the
  range of the covariate from its minimum, where the annotations start, to its
  maximum; the three annotations are stacked from the largest count downwards.
\<close>

theorem lr_plot_chart:
  assumes "df \<noteq> []"
  shows "\<exists>m c. lr_fit (lr_points v df) = Inr m \<and> lr_plot df v xlab = Inr c \<and>
    scatter c = lr_points v df \<and> fit_y c = map (predict m) (fit_x c) \<and>
    length (fit_x c) = length df \<and>
    (\<forall>x\<in>set (fit_x c). label_x c \<le> x \<and> x \<le> Max (weather_col v ` set df)) \<and>
    label_x c = Min (weather_col v ` set df) \<and> sorted (rev (label_y c))"
proof -
  let ?pts = "lr_points v df"
  have ne: "?pts \<noteq> []" using assms by (simp add: lr_points_def)
  then obtain m where fit: "lr_fit ?pts = Inr m" by (auto simp: lr_fit_Inr)
  have xs: "map fst ?pts = map (weather_col v) df" by (simp add: lr_points_def comp_def)
  let ?a = "Min (weather_col v ` set df)" and ?b = "Max (weather_col v ` set df)"
  let ?hi = "Max (set (map snd ?pts))" and ?lo = "Min (set (map snd ?pts))"
  have ab: "?a \<le> ?b" using Min_le_Max_set [of "map (weather_col v) df"] assms by simp
  have lohi: "?lo \<le> ?hi" using Min_le_Max_set [of "map snd ?pts"] ne by simp
  define c where "c = \<lparr>scatter = ?pts, fit_x = linspace ?a ?b (length df),
    fit_y = map (\<lambda>x. intercept m + coef m * x) (linspace ?a ?b (length df)), label_x = ?a,
    label_y = [?hi, ?hi - (?hi - ?lo) / 10, ?hi - (?hi - ?lo) / 5],
    intercept_label = round_nd 2 (intercept m), slope_label = round_nd 2 (coef m),
    r2_label = map_option (round_nd 2) (lr_score m ?pts), x_title = xlab\<rparr>"
  have plot: "lr_plot df v xlab = Inr c"
    using fit by (simp add: lr_plot_def c_def xs Let_def)
  have "fit_y c = map (predict m) (fit_x c)" by (simp add: c_def predict_def)
  moreover have "\<forall>x\<in>set (fit_x c). label_x c \<le> x \<and> x \<le> ?b"
    using ab by (auto simp: c_def dest: linspace_within)
  moreover have "sorted (rev (label_y c))" using lohi by (simp add: c_def)
  ultimately show ?thesis using fit plot by (auto simp: c_def)
qed

theorem lr_plot_chart_witness:
  "\<exists>m c. lr_fit (lr_points Temp [\<lparr>dteday = Date 2021 1 1, casual = 10, registered = 20, cnt = 30,
       season = 1, weathersit = 1, temp = 1 / 5, hum = 1 / 2, windspeed = 1 / 10\<rparr>]) = Inr m \<and>
     lr_plot [\<lparr>dteday = Date 2021 1 1, casual = 10, registered = 20, cnt = 30,
       season = 1, weathersit = 1, temp = 1 / 5, hum = 1 / 2, windspeed = 1 / 10\<rparr>] Temp ''Suhu'' = Inr c \<and>
     scatter c = lr_points Temp [\<lparr>dteday = Date 2021 1 1, casual = 10, registered = 20, cnt = 30,
       season = 1, weathersit = 1, temp = 1 / 5, hum = 1 / 2, windspeed = 1 / 10\<rparr>] \<and>
     fit_y c = map (predict m) (fit_x c) \<and> length (fit_x c) = 1 \<and>
     (\<forall>x\<in>set (fit_x c). label_x c \<le> x \<and> x \<le> Max (weather_col Temp ` set [\<lparr>dteday = Date 2021 1 1,
       casual = 10, registered = 20, cnt = 30, season = 1, weathersit = 1, temp = 1 / 5, hum = 1 / 2,
       windspeed = 1 / 10\<rparr>])) \<and>
     label_x c = Min (weather_col Temp ` set [\<lparr>dteday = Date 2021 1 1, casual = 10, registered = 20,
       cnt = 30, season = 1, weathersit = 1, temp = 1 / 5, hum = 1 / 2, windspeed = 1 / 10\<rparr>]) \<and>
     sorted (rev (label_y c))"
proof -
  have "[\<lparr>dteday = Date 2021 1 1, casual = 10, registered = 20, cnt = 30,
       season = 1, weathersit = 1, temp = 1 / 5, hum = 1 / 2, windspeed = 1 / 10\<rparr>] \<noteq> []" by simp
  from lr_plot_chart [OF this, of Temp "''Suhu''"] show ?thesis by simp
qed

end
