(* ===== verification/Correlation.thy ===== *)
theory Correlation
  imports Regression
begin

text \<open>
  The correlation heatmap, \<^verbatim>\<open>plot_heatmap_corr\<close> (lines 51--62) applied to the
  columns \<^verbatim>\<open>temp, hum, windspeed, cnt\<close> (line 273). \<^verbatim>\<open>df.corr()\<close> is pandas'
  \<^verbatim>\<open>nancorr\<close>: for each pair of columns \<open>(i, j)\<close> with \<open>j \<le> i\<close> it runs
  Welford's one-pass updates of the two means, the two sums of squared
  deviations and the co-moment, then divides the co-moment by the square root of
  the product of the squared deviations, clips the quotient to \<open>[-1, 1]\<close>, and
  writes it to both \<open>(i, j)\<close> and \<open>(j, i)\<close>; a zero divisor or no row gives NaN
  (\<open>None\<close>). The lemmas show that the one-pass state equals the two-pass centred
  sums of \<^theory_text>\<open>Moments\<close>, that the clip never changes the value, and what
  the matrix is on its diagonal and across it.
\<close>

section \<open>Welford's updates\<close>

record welford =
  nobs :: nat
  mean_a :: real
  mean_b :: real
  ssq_a :: real
  ssq_b :: real
  cov_ab :: real

definition welford_init :: welford where
  "welford_init = \<lparr>nobs = 0, mean_a = 0, mean_b = 0, ssq_a = 0, ssq_b = 0, cov_ab = 0\<rparr>"

definition welford_step :: "welford \<Rightarrow> real \<times> real \<Rightarrow> welford" where
  "welford_step w p =
     (let n = nobs w + 1; dx = fst p - mean_a w; dy = snd p - mean_b w;
          mx = mean_a w + 1 / real n * dx; my = mean_b w + 1 / real n * dy
      in \<lparr>nobs = n, mean_a = mx, mean_b = my,
          ssq_a = ssq_a w + (fst p - mx) * dx, ssq_b = ssq_b w + (snd p - my) * dy,
          cov_ab = cov_ab w + (fst p - mx) * dy\<rparr>)"

definition welford_run :: "points \<Rightarrow> welford" where
  "welford_run pts = foldl welford_step welford_init pts"

text \<open>The coefficient of one pair of columns, with \<^verbatim>\<open>min_periods = 1\<close>.\<close>

definition nancorr_pair :: "points \<Rightarrow> real option" where
  "nancorr_pair pts =
     (let w = welford_run pts in
      if nobs w < 1 then None
      else let divisor = sqrt (ssq_a w * ssq_b w) in
           if divisor \<noteq> 0 then Some (max (-1) (min 1 (cov_ab w / divisor))) else None)"

section \<open>The matrix and the heatmap\<close>

definition corr_entry :: "real list list \<Rightarrow> nat \<Rightarrow> nat \<Rightarrow> real option" where
  "corr_entry cols i j =
     (if j \<le> i then nancorr_pair (zip (cols ! i) (cols ! j))
      else nancorr_pair (zip (cols ! j) (cols ! i)))"

definition corr_matrix :: "real list list \<Rightarrow> real option list list" where
  "corr_matrix cols = map (\<lambda>i. map (corr_entry cols i) [0..<length cols]) [0..<length cols]"

definition heatmap_cols :: "day_row list \<Rightarrow> real list list" where
  "heatmap_cols df = [map temp df, map hum df, map windspeed df, map (\<lambda>r. real_of_int (cnt r)) df]"

record heatmap =
  hm_labels :: "string list"
  hm_values :: "real option list list"
  hm_annot :: "real option list list"

definition plot_heatmap_corr :: "day_row list \<Rightarrow> heatmap" where
  "plot_heatmap_corr df =
     (let m = corr_matrix (heatmap_cols df)
      in \<lparr>hm_labels = [''suhu'', ''kelembapan'', ''kecepatan_angin'', ''total_rental''],
          hm_values = m, hm_annot = map (map (map_option (round_nd 2))) m\<rparr>)"

lemmas correlation_eval [model_eval] = welford_init_def welford_step_def welford_run_def
  nancorr_pair_def corr_entry_def corr_matrix_def heatmap_cols_def plot_heatmap_corr_def

section \<open>One pass equals two passes\<close>

lemma sum_fst_mean_x: "sum_list (map fst pts) = real (length pts) * mean_x pts"
  by (simp add: mean_x_def avg_def)

lemma sum_snd_mean_y: "sum_list (map snd pts) = real (length pts) * mean_y pts"
  by (simp add: mean_y_def avg_def)

lemma centred_shift:
  "(\<Sum>q\<leftarrow>ps. (f q - c) * (g q - d)) =
     (\<Sum>q\<leftarrow>ps. (f q - avg (map f ps)) * (g q - avg (map g ps))) +
     real (length ps) * ((avg (map f ps) - c) * (avg (map g ps) - d))"
proof (cases "ps = []")
  case True
  then show ?thesis by simp
next
  case False
  let ?a = "avg (map f ps)" and ?b = "avg (map g ps)"
  have pt: "(f q - c) * (g q - d) = (f q - ?a) * (g q - ?b) + (?b - d) * (f q - ?a) +
      (?a - c) * (g q - ?b) + (?a - c) * (?b - d)" for q
    by (simp add: algebra_simps)
  have za: "(\<Sum>q\<leftarrow>ps. f q - ?a) = 0"
    using sum_list_sub_avg [of "map f ps"] False by (simp add: comp_def)
  have zb: "(\<Sum>q\<leftarrow>ps. g q - ?b) = 0"
    using sum_list_sub_avg [of "map g ps"] False by (simp add: comp_def)
  show ?thesis
    by (simp only: pt sum_list_addf sum_list_const_mult sum_list_triv za zb) simp
qed

lemma avg_step_arith:
  fixes S a n :: real
  assumes "0 < n"
  shows "(S + a) / (n + 1) = S / n + 1 / (n + 1) * (a - S / n)"
proof -
  have n0: "n \<noteq> 0" and n1: "n + 1 \<noteq> 0" using assms by linarith+
  have e1: "(n + 1) * (1 / (n + 1) * (a - S / n)) = a - S / n" using n1 by simp
  have e3: "n * (S / n) = S" using n0 by simp
  have e2: "(n + 1) * (S / n) = S + S / n"
    by (simp only: distrib_right mult_1_left e3)
  have "(n + 1) * (S / n + 1 / (n + 1) * (a - S / n)) = S + a"
    by (simp only: distrib_left e1 e2)
  then show ?thesis using n1 by (simp add: divide_eq_eq mult.commute)
qed

lemma mean_snoc:
  "avg (map h (ps @ [q])) = avg (map h ps) + 1 / real (length ps + 1) * (h q - avg (map h ps))"
proof (cases "ps = []")
  case True
  then show ?thesis by (simp add: avg_def)
next
  case False
  then have n: "0 < real (length ps)" by simp
  show ?thesis
    using avg_step_arith [OF n, of "sum_list (map h ps)" "h q"] by (simp add: avg_def add.commute)
qed

lemma welford_update_sq:
  fixes n :: nat and m u :: real
  assumes "m' = m + 1 / real (n + 1) * (u - m)"
  shows "real n * ((m - m') * (m - m')) + (u - m') * (u - m') = (u - m') * (u - m)"
  using assms by (simp add: field_simps) algebra

lemma welford_update_cross:
  fixes n :: nat and m u k v :: real
  assumes "m' = m + 1 / real (n + 1) * (u - m)" and "k' = k + 1 / real (n + 1) * (v - k)"
  shows "real n * ((m - m') * (k - k')) + (u - m') * (v - k') = (u - m') * (v - k)"
  using assms by (simp add: field_simps) algebra

lemma mean_x_snoc:
  "mean_x (ps @ [p]) = mean_x ps + 1 / real (length ps + 1) * (fst p - mean_x ps)"
  using mean_snoc [of fst ps p] by (simp add: mean_x_def)

lemma mean_y_snoc:
  "mean_y (ps @ [p]) = mean_y ps + 1 / real (length ps + 1) * (snd p - mean_y ps)"
  using mean_snoc [of snd ps p] by (simp add: mean_y_def)

lemma sxy_snoc:
  "sxy (ps @ [p]) = sxy ps + (fst p - mean_x (ps @ [p])) * (snd p - mean_y ps)"
proof -
  let ?mx = "mean_x ps" and ?my = "mean_y ps"
  let ?mx' = "mean_x (ps @ [p])" and ?my' = "mean_y (ps @ [p])"
  have "sxy (ps @ [p]) = (\<Sum>q\<leftarrow>ps. (fst q - ?mx') * (snd q - ?my')) + (fst p - ?mx') * (snd p - ?my')"
    by (simp add: sxy_def)
  also have "(\<Sum>q\<leftarrow>ps. (fst q - ?mx') * (snd q - ?my')) =
      sxy ps + real (length ps) * ((?mx - ?mx') * (?my - ?my'))"
    using centred_shift [of fst ?mx' snd ?my' ps] by (simp add: sxy_def mean_x_def mean_y_def)
  finally show ?thesis
    using welford_update_cross [OF mean_x_snoc mean_y_snoc, of ps p] by simp
qed

lemma sxx_snoc:
  "sxx (ps @ [p]) = sxx ps + (fst p - mean_x (ps @ [p])) * (fst p - mean_x ps)"
proof -
  let ?mx = "mean_x ps" and ?mx' = "mean_x (ps @ [p])"
  have "sxx (ps @ [p]) = (\<Sum>q\<leftarrow>ps. (fst q - ?mx') * (fst q - ?mx')) + (fst p - ?mx') * (fst p - ?mx')"
    by (simp add: sxx_def power2_eq_square)
  also have "(\<Sum>q\<leftarrow>ps. (fst q - ?mx') * (fst q - ?mx')) =
      sxx ps + real (length ps) * ((?mx - ?mx') * (?mx - ?mx'))"
    using centred_shift [of fst ?mx' fst ?mx' ps] by (simp add: sxx_def mean_x_def power2_eq_square)
  finally show ?thesis
    using welford_update_sq [OF mean_x_snoc, of ps p] by simp
qed

lemma syy_snoc:
  "syy (ps @ [p]) = syy ps + (snd p - mean_y (ps @ [p])) * (snd p - mean_y ps)"
proof -
  let ?my = "mean_y ps" and ?my' = "mean_y (ps @ [p])"
  have "syy (ps @ [p]) = (\<Sum>q\<leftarrow>ps. (snd q - ?my') * (snd q - ?my')) + (snd p - ?my') * (snd p - ?my')"
    by (simp add: syy_def power2_eq_square)
  also have "(\<Sum>q\<leftarrow>ps. (snd q - ?my') * (snd q - ?my')) =
      syy ps + real (length ps) * ((?my - ?my') * (?my - ?my'))"
    using centred_shift [of snd ?my' snd ?my' ps] by (simp add: syy_def mean_y_def power2_eq_square)
  finally show ?thesis
    using welford_update_sq [OF mean_y_snoc, of ps p] by simp
qed

lemma welford_state:
  "welford_run pts = \<lparr>nobs = length pts, mean_a = mean_x pts, mean_b = mean_y pts,
     ssq_a = sxx pts, ssq_b = syy pts, cov_ab = sxy pts\<rparr>"
proof (induction pts rule: rev_induct)
  case Nil
  then show ?case
    by (simp add: welford_run_def welford_init_def mean_x_def mean_y_def avg_def sxx_def syy_def sxy_def)
next
  case (snoc p ps)
  have "welford_run (ps @ [p]) = welford_step (welford_run ps) p"
    by (simp add: welford_run_def)
  also have "\<dots> = \<lparr>nobs = length (ps @ [p]), mean_a = mean_x (ps @ [p]), mean_b = mean_y (ps @ [p]),
      ssq_a = sxx (ps @ [p]), ssq_b = syy (ps @ [p]), cov_ab = sxy (ps @ [p])\<rparr>"
    by (simp only: snoc.IH) (simp add: welford_step_def Let_def mean_x_snoc mean_y_snoc
        sxx_snoc syy_snoc sxy_snoc)
  finally show ?case .
qed

lemma corr_abs_le_1:
  assumes "sxx pts \<noteq> 0" and "syy pts \<noteq> 0"
  shows "\<bar>sxy pts / sqrt (sxx pts * syy pts)\<bar> \<le> 1"
proof -
  have pos: "0 < sxx pts * syy pts"
    using assms sxx_nonneg [of pts] syy_nonneg [of pts] by (simp add: zero_less_mult_iff)
  have "\<bar>sxy pts\<bar>\<^sup>2 \<le> sxx pts * syy pts"
    using centred_cauchy_schwarz [of pts] by simp
  then have "\<bar>sxy pts\<bar> \<le> sqrt (sxx pts * syy pts)"
    by (rule real_le_rsqrt)
  then show ?thesis using pos by (simp add: abs_div)
qed

lemma nancorr_pair_eq:
  "nancorr_pair pts =
     (if sxx pts \<noteq> 0 \<and> syy pts \<noteq> 0 then Some (sxy pts / sqrt (sxx pts * syy pts)) else None)"
proof (cases "sxx pts \<noteq> 0 \<and> syy pts \<noteq> 0")
  case True
  then have ne: "pts \<noteq> []" by (auto simp: sxx_def)
  have d: "sqrt (sxx pts * syy pts) \<noteq> 0" using True by simp
  define v where "v = sxy pts / sqrt (sxx pts * syy pts)"
  have "\<bar>v\<bar> \<le> 1" unfolding v_def using True by (intro corr_abs_le_1) auto
  then have "v \<le> 1" "- v \<le> 1" by (auto dest: abs_le_D1 abs_le_D2)
  then have b: "-1 \<le> v \<and> v \<le> 1" by linarith
  have clip: "max (-1) (min 1 v) = v" using b by (simp add: min_absorb2 max_absorb2)
  show ?thesis using True ne d
    by (simp add: nancorr_pair_def welford_state Let_def v_def [symmetric] clip)
next
  case False
  then show ?thesis by (auto simp: nancorr_pair_def welford_state Let_def)
qed

lemma corr_entry_sym: "corr_entry cols i j = corr_entry cols j i"
  by (simp add: corr_entry_def)

lemma moments_diag:
  "sxx (zip c c) = syy (zip c c) \<and> sxy (zip c c) = sxx (zip c c)"
  by (simp add: zip_same_conv_map sxx_def syy_def sxy_def mean_x_def mean_y_def comp_def
      power2_eq_square)

lemma nancorr_pair_diag:
  "nancorr_pair (zip c c) = (if sxx (zip c c) = 0 then None else Some 1)"
proof -
  have "sqrt (sxx (zip c c) * sxx (zip c c)) = sxx (zip c c)"
    using sxx_nonneg [of "zip c c"] by simp
  then show ?thesis using moments_diag [of c] by (simp add: nancorr_pair_eq)
qed

lemma length_heatmap_cols [simp]: "length (heatmap_cols df) = 4"
  by (simp add: heatmap_cols_def)

section \<open>Properties of the heatmap\<close>

text \<open>
  C16: pandas' one-pass computation is the textbook Pearson coefficient: after the
  rows the Welford state holds the row count, the two means and the two-pass
  centred sums, and the clipped quotient is the unclipped coefficient
  \<open>sxy / sqrt (sxx * syy)\<close>, defined exactly when both columns vary; the clip to
  \<open>[-1, 1]\<close> never changes it.
\<close>

theorem nancorr_one_pass:
  "welford_run pts = \<lparr>nobs = length pts, mean_a = mean_x pts, mean_b = mean_y pts,
     ssq_a = sxx pts, ssq_b = syy pts, cov_ab = sxy pts\<rparr> \<and>
   nancorr_pair pts =
     (if sxx pts \<noteq> 0 \<and> syy pts \<noteq> 0 then Some (sxy pts / sqrt (sxx pts * syy pts)) else None)"
  by (simp only: welford_state nancorr_pair_eq)

text \<open>
  C17: the heatmap shows the four renamed columns; its matrix is symmetric (each
  coefficient is computed once and written to both cells), and its diagonal
  holds 1 for a column that varies and NaN for a constant column.
\<close>

theorem heatmap_symmetric_diagonal:
  "hm_labels (plot_heatmap_corr df) = [''suhu'', ''kelembapan'', ''kecepatan_angin'', ''total_rental''] \<and>
   hm_values (plot_heatmap_corr df) =
     map (\<lambda>i. map (\<lambda>j. corr_entry (heatmap_cols df) j i) [0..<4]) [0..<4] \<and>
   map (\<lambda>i. hm_values (plot_heatmap_corr df) ! i ! i) [0..<4] =
     map (\<lambda>c. if sxx (zip c c) = 0 then None else Some 1) (heatmap_cols df)"
proof -
  let ?cols = "heatmap_cols df"
  have vals: "hm_values (plot_heatmap_corr df) = map (\<lambda>i. map (corr_entry ?cols i) [0..<4]) [0..<4]"
    by (simp add: plot_heatmap_corr_def corr_matrix_def Let_def)
  have sym: "map (\<lambda>i. map (corr_entry ?cols i) [0..<4]) [0..<4] =
      map (\<lambda>i. map (\<lambda>j. corr_entry ?cols j i) [0..<4]) [0..<4]"
    by (simp add: corr_entry_sym [of ?cols])
  have "map (\<lambda>i. hm_values (plot_heatmap_corr df) ! i ! i) [0..<4] =
      map (\<lambda>i. nancorr_pair (zip (?cols ! i) (?cols ! i))) [0..<4]"
    by (simp add: vals corr_entry_def)
  also have "\<dots> = map (\<lambda>c. nancorr_pair (zip c c)) ?cols"
    by (simp add: heatmap_cols_def upt_rec)
  also have "\<dots> = map (\<lambda>c. if sxx (zip c c) = 0 then None else Some 1) ?cols"
    by (simp add: nancorr_pair_diag)
  finally show ?thesis using vals sym by (simp add: plot_heatmap_corr_def Let_def)
qed

end
