(* ===== verification/Metrics.thy ===== *)
theory Metrics
  imports Frame Numeric
begin

text \<open>
  The summary section of the page: the three metric cards (lines 160--172), the
  trend chart \<^verbatim>\<open>plot_bike_rental\<close> (lines 23--36, drawn at line 176) and the
  cards of the days with the highest and the lowest total count (lines
  178--244). A metric card shows the column sum and the caption
  \<^verbatim>\<open>"Avg. " + str(round(mean)) + " users/day"\<close>; on an empty selection the mean
  is NaN and \<^verbatim>\<open>round\<close> raises. A day card is built from the row that
  \<^verbatim>\<open>idxmax\<close>/\<^verbatim>\<open>idxmin\<close> select, with the season and weather texts looked up
  in the two dictionaries with the default \<^verbatim>\<open>"Unknown"\<close>. Texts keep the
  emoji of the source as their UTF-8 bytes.
\<close>

section \<open>Metric cards\<close>

definition show_int :: "int \<Rightarrow> string" where
  "show_int i = (if i < 0 then CHR ''-'' # show_nat (nat (- i)) else show_nat (nat i))"

record metric =
  m_label :: string
  m_value :: int
  m_caption :: string

definition metric_card :: "string \<Rightarrow> int list \<Rightarrow> metric result" where
  "metric_card lbl col =
     (case series_mean col of
        None \<Rightarrow> Inl NaNToInt
      | Some a \<Rightarrow> Inr \<lparr>m_label = lbl, m_value = sum_list col,
                     m_caption = ''Avg. '' @ show_int (py_round a) @ '' users/day''\<rparr>)"

definition summary_metrics :: "day_row list \<Rightarrow> metric list result" where
  "summary_metrics df =
     (case metric_card ''Casual Users'' (map casual df) of
        Inl e \<Rightarrow> Inl e
      | Inr c1 \<Rightarrow>
          (case metric_card ''Registered Users'' (map registered df) of
             Inl e \<Rightarrow> Inl e
           | Inr c2 \<Rightarrow>
               (case metric_card ''Total Users'' (map cnt df) of
                  Inl e \<Rightarrow> Inl e
                | Inr c3 \<Rightarrow> Inr [c1, c2, c3])))"

section \<open>The trend chart\<close>

text \<open>
  \<^verbatim>\<open>df.sort_values('dteday')\<close> then one line per count column against the date.
  The model sorts stably; the daily table has one row per date, so no two rows
  tie and any sort gives the same order.
\<close>

record trend_chart =
  casual_line :: "(date \<times> int) list"
  registered_line :: "(date \<times> int) list"
  total_line :: "(date \<times> int) list"
  legend :: "string list"

definition plot_bike_rental :: "day_row list \<Rightarrow> trend_chart" where
  "plot_bike_rental df =
     (let s = sort_key dteday df
      in \<lparr>casual_line = map (\<lambda>r. (dteday r, casual r)) s,
          registered_line = map (\<lambda>r. (dteday r, registered r)) s,
          total_line = map (\<lambda>r. (dteday r, cnt r)) s,
          legend = [''Casual'', ''Registered'', ''Total'']\<rparr>)"

section \<open>Cards of the extreme days\<close>

definition utf8 :: "nat list \<Rightarrow> string" where
  "utf8 bs = map char_of bs"

definition season_dict :: "int \<Rightarrow> string option" where
  "season_dict k =
     (if k = 1 then Some (utf8 [240, 159, 140, 184] @ '' Springer'')
      else if k = 2 then Some (utf8 [226, 152, 128, 239, 184, 143] @ '' Summer'')
      else if k = 3 then Some (utf8 [240, 159, 141, 130] @ '' Fall'')
      else if k = 4 then Some (utf8 [226, 157, 132, 239, 184, 143] @ '' Winter'')
      else None)"

definition cuaca_dict :: "int \<Rightarrow> string option" where
  "cuaca_dict k =
     (if k = 1 then Some (utf8 [240, 159, 140, 164, 239, 184, 143] @
        '' Clear, Few clouds, Partly cloudy, Partly cloudy'')
      else if k = 2 then Some (utf8 [240, 159, 140, 171, 239, 184, 143] @
        '' Mist + Cloudy, Mist + Broken clouds, Mist + Few clouds, Mist'')
      else if k = 3 then Some (utf8 [226, 157, 132, 239, 184, 143, 226, 155, 136, 239, 184, 143] @
        '' Light Snow, Light Rain + Thunderstorm + Scattered clouds, Light Rain + Scattered clouds'')
      else if k = 4 then Some (utf8 [240, 159, 140, 167, 239, 184, 143, 240, 159, 140, 168, 239, 184, 143] @
        '' Heavy Rain + Ice Pallets + Thunderstorm + Mist, Snow + Fog'')
      else None)"

text \<open>\<^verbatim>\<open>dict.get(key, default)\<close>.\<close>

definition dict_get :: "('k \<Rightarrow> 'v option) \<Rightarrow> 'k \<Rightarrow> 'v \<Rightarrow> 'v" where
  "dict_get d k dflt = (case d k of None \<Rightarrow> dflt | Some v \<Rightarrow> v)"

record day_card =
  card_date :: string
  card_season :: string
  card_weather :: string
  card_casual :: int
  card_registered :: int
  card_total :: int
  card_temp :: real
  card_hum :: real
  card_wind :: real

definition day_card :: "day_row \<Rightarrow> day_card" where
  "day_card r =
     \<lparr>card_date = utf8 [240, 159, 147, 133] @ '' '' @ strftime_ymd (dteday r),
      card_season = dict_get season_dict (season r) ''Unknown'' @ '' Season'',
      card_weather = dict_get cuaca_dict (weathersit r) ''Unknown'',
      card_casual = casual r, card_registered = registered r, card_total = cnt r,
      card_temp = round_nd 2 (temp r), card_hum = round_nd 2 (hum r), card_wind = round_nd 2 (windspeed r)\<rparr>"

definition max_card :: "day_row list \<Rightarrow> day_card result" where
  "max_card df = (case idxmax cnt df of Inl e \<Rightarrow> Inl e | Inr r \<Rightarrow> Inr (day_card r))"

definition min_card :: "day_row list \<Rightarrow> day_card result" where
  "min_card df = (case idxmin cnt df of Inl e \<Rightarrow> Inl e | Inr r \<Rightarrow> Inr (day_card r))"

lemmas metrics_eval [model_eval] = show_int_def metric_card_def summary_metrics_def
  plot_bike_rental_def utf8_def season_dict_def cuaca_dict_def dict_get_def day_card_def
  max_card_def min_card_def

section \<open>Lemmas\<close>

lemma show_int_nonneg: "0 \<le> i \<Longrightarrow> show_int i = show_nat (nat i)"
  by (simp add: show_int_def)

text \<open>A metric card of a non-empty column of counts: its value is the sum, and
  its caption prints, without a sign, the integer nearest to the mean.\<close>

lemma metric_card_counts:
  assumes "col \<noteq> []" and "\<forall>x\<in>set col. 0 \<le> x"
  shows "\<exists>a. metric_card lbl col =
              Inr \<lparr>m_label = lbl, m_value = sum_list col,
                   m_caption = ''Avg. '' @ show_nat a @ '' users/day''\<rparr> \<and>
            \<bar>real a - mean_of col\<bar> \<le> 1 / 2"
proof -
  have nn: "0 \<le> py_round (mean_of col)"
    using assms(2) by (intro py_round_nonneg mean_of_nonneg)
  have "\<bar>real (nat (py_round (mean_of col))) - mean_of col\<bar> \<le> 1 / 2"
    using nn py_round_dist [of "mean_of col"] by (simp add: abs_minus_commute)
  then show ?thesis
    using assms(1) nn by (intro exI [of _ "nat (py_round (mean_of col))"])
      (simp add: metric_card_def series_mean_def show_int_nonneg)
qed

lemma row_ok_nonneg:
  "table_ok row_ok rs \<Longrightarrow> (\<forall>x\<in>set (map casual rs). 0 \<le> x) \<and>
     (\<forall>x\<in>set (map registered rs). 0 \<le> x) \<and> (\<forall>x\<in>set (map cnt rs). 0 \<le> x)"
  by (auto simp: table_ok_def row_ok_def list_all_iff)

lemma row_ok_map_cnt:
  "table_ok row_ok rs \<Longrightarrow> map cnt rs = map2 (+) (map casual rs) (map registered rs)"
  by (induction rs) (auto simp: table_ok_def row_ok_def)

lemma metric_card_Inr: "xs \<noteq> [] \<Longrightarrow> \<exists>c. metric_card l xs = Inr c"
  by (simp add: metric_card_def series_mean_def)

lemma strftime_card_date:
  "valid_date d \<Longrightarrow> 1000 \<le> year d \<Longrightarrow> strftime_ymd d = iso_date d"
  by (simp add: valid_date_def strftime_ymd_iso_date)

lemma season_dict_total: "k \<in> {1..4} \<Longrightarrow> \<exists>s. season_dict k = Some s"
  by (auto simp: season_dict_def)

lemma cuaca_dict_total: "k \<in> {1..4} \<Longrightarrow> \<exists>s. cuaca_dict k = Some s"
  by (auto simp: cuaca_dict_def)

lemma dict_get_Some: "d k = Some v \<Longrightarrow> dict_get d k dflt = v"
  by (simp add: dict_get_def)

section \<open>Properties of the summary section\<close>

text \<open>
  C18: on a non-empty selection satisfying the table invariant the three metric
  cards are produced: each shows its column sum, the casual and registered sums
  add up to the total, and each caption prints a non-negative integer within
  one half of the column mean (Python's \<^verbatim>\<open>round\<close>).
\<close>

theorem summary_metrics_cards:
  assumes "table_ok row_ok df" and "df \<noteq> []"
  shows "\<exists>a1 a2 a3. summary_metrics df =
      Inr [\<lparr>m_label = ''Casual Users'', m_value = sum_list (map casual df),
            m_caption = ''Avg. '' @ show_nat a1 @ '' users/day''\<rparr>,
           \<lparr>m_label = ''Registered Users'', m_value = sum_list (map registered df),
            m_caption = ''Avg. '' @ show_nat a2 @ '' users/day''\<rparr>,
           \<lparr>m_label = ''Total Users'', m_value = sum_list (map cnt df),
            m_caption = ''Avg. '' @ show_nat a3 @ '' users/day''\<rparr>] \<and>
      \<bar>real a1 - mean_of (map casual df)\<bar> \<le> 1 / 2 \<and>
      \<bar>real a2 - mean_of (map registered df)\<bar> \<le> 1 / 2 \<and>
      \<bar>real a3 - mean_of (map cnt df)\<bar> \<le> 1 / 2 \<and>
      sum_list (map casual df) + sum_list (map registered df) = sum_list (map cnt df)"
proof -
  from assms(2) have ne: "map casual df \<noteq> []" "map registered df \<noteq> []" "map cnt df \<noteq> []"
    by simp_all
  note nn = row_ok_nonneg [OF assms(1)]
  obtain a1 where 1: "metric_card ''Casual Users'' (map casual df) =
      Inr \<lparr>m_label = ''Casual Users'', m_value = sum_list (map casual df),
           m_caption = ''Avg. '' @ show_nat a1 @ '' users/day''\<rparr>"
      "\<bar>real a1 - mean_of (map casual df)\<bar> \<le> 1 / 2"
    using metric_card_counts [OF ne(1)] nn by blast
  obtain a2 where 2: "metric_card ''Registered Users'' (map registered df) =
      Inr \<lparr>m_label = ''Registered Users'', m_value = sum_list (map registered df),
           m_caption = ''Avg. '' @ show_nat a2 @ '' users/day''\<rparr>"
      "\<bar>real a2 - mean_of (map registered df)\<bar> \<le> 1 / 2"
    using metric_card_counts [OF ne(2)] nn by blast
  obtain a3 where 3: "metric_card ''Total Users'' (map cnt df) =
      Inr \<lparr>m_label = ''Total Users'', m_value = sum_list (map cnt df),
           m_caption = ''Avg. '' @ show_nat a3 @ '' users/day''\<rparr>"
      "\<bar>real a3 - mean_of (map cnt df)\<bar> \<le> 1 / 2"
    using metric_card_counts [OF ne(3)] nn by blast
  show ?thesis
    using 1 2 3 sum_counts [OF assms(1)]
    by (intro exI [of _ a1] exI [of _ a2] exI [of _ a3]) (simp add: summary_metrics_def)
qed

theorem summary_metrics_cards_witness:
  "\<exists>a1 a2 a3. summary_metrics [\<lparr>dteday = Date 2021 1 1, casual = 10, registered = 20, cnt = 30,
                                 season = 1, weathersit = 1, temp = 5, hum = 60, windspeed = 10\<rparr>] =
      Inr [\<lparr>m_label = ''Casual Users'', m_value = sum_list [10],
            m_caption = ''Avg. '' @ show_nat a1 @ '' users/day''\<rparr>,
           \<lparr>m_label = ''Registered Users'', m_value = sum_list [20],
            m_caption = ''Avg. '' @ show_nat a2 @ '' users/day''\<rparr>,
           \<lparr>m_label = ''Total Users'', m_value = sum_list [30],
            m_caption = ''Avg. '' @ show_nat a3 @ '' users/day''\<rparr>] \<and>
      \<bar>real a1 - mean_of [10]\<bar> \<le> 1 / 2 \<and> \<bar>real a2 - mean_of [20]\<bar> \<le> 1 / 2 \<and>
      \<bar>real a3 - mean_of [30]\<bar> \<le> 1 / 2 \<and> sum_list [10] + sum_list [20] = sum_list [30::int]"
proof -
  have "table_ok row_ok [\<lparr>dteday = Date 2021 1 1, casual = 10, registered = 20, cnt = 30,
                          season = 1, weathersit = 1, temp = 5, hum = 60, windspeed = (10::real)\<rparr>]"
    by (simp add: frame_eval date_eval)
  from summary_metrics_cards [OF this] show ?thesis by simp
qed

text \<open>
  C19: on an empty selection the page does not show zero cards: the mean of the
  empty column is NaN, \<^verbatim>\<open>round\<close> raises, and the first caption (line 164)
  stops the script.
\<close>

theorem summary_metrics_empty: "summary_metrics [] = Inl NaNToInt"
  by (simp add: summary_metrics_def metric_card_def series_mean_def)

text \<open>
  C20: on a non-empty selection the two tabs show the cards of the first row
  with the largest total count and of the first row with the smallest: every
  row before the chosen one has a strictly smaller (larger) count and no row
  after it a larger (smaller) one.
\<close>

theorem extreme_day_cards:
  assumes "df \<noteq> []"
  shows "(\<exists>ys r zs. df = ys @ r # zs \<and> max_card df = Inr (day_card r) \<and>
            (\<forall>y\<in>set ys. cnt y < cnt r) \<and> (\<forall>z\<in>set zs. cnt z \<le> cnt r)) \<and>
         (\<exists>ys r zs. df = ys @ r # zs \<and> min_card df = Inr (day_card r) \<and>
            (\<forall>y\<in>set ys. cnt r < cnt y) \<and> (\<forall>z\<in>set zs. cnt r \<le> cnt z))"
proof
  obtain ys r zs where a: "df = ys @ r # zs" "idxmax cnt df = Inr r"
      "\<forall>y\<in>set ys. cnt y < cnt r" "\<forall>z\<in>set zs. cnt z \<le> cnt r"
    using idxmax_split [OF assms, of cnt] by blast
  from a(2) have "max_card df = Inr (day_card r)" by (simp add: max_card_def)
  with a show "\<exists>ys r zs. df = ys @ r # zs \<and> max_card df = Inr (day_card r) \<and>
      (\<forall>y\<in>set ys. cnt y < cnt r) \<and> (\<forall>z\<in>set zs. cnt z \<le> cnt r)" by blast
next
  obtain ys r zs where a: "df = ys @ r # zs" "idxmin cnt df = Inr r"
      "\<forall>y\<in>set ys. cnt r < cnt y" "\<forall>z\<in>set zs. cnt r \<le> cnt z"
    using idxmin_split [OF assms, of cnt] by blast
  from a(2) have "min_card df = Inr (day_card r)" by (simp add: min_card_def)
  with a show "\<exists>ys r zs. df = ys @ r # zs \<and> min_card df = Inr (day_card r) \<and>
      (\<forall>y\<in>set ys. cnt r < cnt y) \<and> (\<forall>z\<in>set zs. cnt r \<le> cnt z)" by blast
qed

theorem extreme_day_cards_witness:
  "[\<lparr>dteday = Date 2021 1 1, casual = 10, registered = 20, cnt = 30,
     season = 1, weathersit = 1, temp = 5, hum = 60, windspeed = 10\<rparr>] \<noteq> [] \<and>
   (\<exists>ys r zs. [\<lparr>dteday = Date 2021 1 1, casual = 10, registered = 20, cnt = 30,
     season = 1, weathersit = 1, temp = 5, hum = 60, windspeed = 10\<rparr>] = ys @ r # zs \<and>
     max_card [\<lparr>dteday = Date 2021 1 1, casual = 10, registered = 20, cnt = 30,
     season = 1, weathersit = 1, temp = 5, hum = 60, windspeed = 10\<rparr>] = Inr (day_card r) \<and>
     (\<forall>y\<in>set ys. cnt y < cnt r) \<and> (\<forall>z\<in>set zs. cnt z \<le> cnt r)) \<and>
   (\<exists>ys r zs. [\<lparr>dteday = Date 2021 1 1, casual = 10, registered = 20, cnt = 30,
     season = 1, weathersit = 1, temp = 5, hum = 60, windspeed = 10\<rparr>] = ys @ r # zs \<and>
     min_card [\<lparr>dteday = Date 2021 1 1, casual = 10, registered = 20, cnt = 30,
     season = 1, weathersit = 1, temp = 5, hum = 60, windspeed = (10::real)\<rparr>] = Inr (day_card r) \<and>
     (\<forall>y\<in>set ys. cnt r < cnt y) \<and> (\<forall>z\<in>set zs. cnt r \<le> cnt z))"
  using extreme_day_cards [of "[\<lparr>dteday = Date 2021 1 1, casual = 10, registered = 20, cnt = 30,
     season = 1, weathersit = 1, temp = 5, hum = 60, windspeed = 10\<rparr>]"] by simp

text \<open>
  C21: for a row of the data model whose year has four digits, the card prints
  the calendar emoji and the ISO date, and the season and weather texts are
  entries of the two dictionaries, never the default \<^verbatim>\<open>"Unknown"\<close>.
\<close>

theorem day_card_texts:
  assumes "day_row_ok r" and "1000 \<le> year (dteday r)"
  shows "card_date (day_card r) = utf8 [240, 159, 147, 133] @ '' '' @ iso_date (dteday r) \<and>
         (\<exists>s. season_dict (season r) = Some s \<and> card_season (day_card r) = s @ '' Season'') \<and>
         (\<exists>w. cuaca_dict (weathersit r) = Some w \<and> card_weather (day_card r) = w)"
proof -
  from assms(1) have v: "valid_date (dteday r)" and s: "season r \<in> {1..4}" and
      w: "weathersit r \<in> {1..4}"
    by (simp_all add: day_row_ok_def row_ok_def)
  obtain sv where sv: "season_dict (season r) = Some sv" using season_dict_total [OF s] by blast
  obtain wv where wv: "cuaca_dict (weathersit r) = Some wv" using cuaca_dict_total [OF w] by blast
  show ?thesis
    using strftime_card_date [OF v assms(2)] sv wv
    by (simp add: day_card_def dict_get_Some)
qed

theorem day_card_texts_witness:
  "card_date (day_card \<lparr>dteday = Date 2021 1 3, casual = 20, registered = 80, cnt = 100,
       season = 1, weathersit = 2, temp = 8, hum = 50, windspeed = 12\<rparr>) =
     utf8 [240, 159, 147, 133] @ '' '' @ iso_date (Date 2021 1 3) \<and>
   (\<exists>s. season_dict 1 = Some s \<and> card_season (day_card \<lparr>dteday = Date 2021 1 3, casual = 20,
       registered = 80, cnt = 100, season = 1, weathersit = 2, temp = 8, hum = 50, windspeed = 12\<rparr>) =
       s @ '' Season'') \<and>
   (\<exists>w. cuaca_dict 2 = Some w \<and> card_weather (day_card \<lparr>dteday = Date 2021 1 3, casual = 20,
       registered = 80, cnt = 100, season = 1, weathersit = 2, temp = 8, hum = 50, windspeed = 12\<rparr>) = w)"
proof -
  have "day_row_ok \<lparr>dteday = Date 2021 1 3, casual = 20, registered = 80, cnt = 100,
       season = 1, weathersit = 2, temp = 8, hum = 50, windspeed = (12::real)\<rparr>"
    by (simp add: frame_eval date_eval)
  from day_card_texts [OF this] show ?thesis by simp
qed

text \<open>
  C22: the trend chart draws the selected rows in date order: the total line is
  sorted by date and holds exactly the (date, count) pairs of the table, the
  three lines share their dates, and under the table invariant the total line
  is the pointwise sum of the casual and registered lines.
\<close>

theorem trend_chart_lines:
  assumes "table_ok row_ok df"
  shows "sorted (map fst (total_line (plot_bike_rental df))) \<and>
         mset (total_line (plot_bike_rental df)) = mset (map (\<lambda>r. (dteday r, cnt r)) df) \<and>
         map fst (casual_line (plot_bike_rental df)) = map fst (total_line (plot_bike_rental df)) \<and>
         map fst (registered_line (plot_bike_rental df)) = map fst (total_line (plot_bike_rental df)) \<and>
         map snd (total_line (plot_bike_rental df)) =
           map2 (+) (map snd (casual_line (plot_bike_rental df)))
                    (map snd (registered_line (plot_bike_rental df)))"
proof -
  have ok: "table_ok row_ok (sort_key dteday df)"
    using assms by (simp add: table_ok_def list_all_iff)
  then have "map cnt (sort_key dteday df) =
        map2 (+) (map casual (sort_key dteday df)) (map registered (sort_key dteday df))"
    by (rule row_ok_map_cnt)
  moreover have "sorted (map dteday (sort_key dteday df))" by (rule sorted_sort_key)
  moreover have "mset (map (\<lambda>r. (dteday r, cnt r)) (sort_key dteday df)) =
      mset (map (\<lambda>r. (dteday r, cnt r)) df)"
    by (simp only: mset_map mset_sort)
  ultimately show ?thesis
    by (simp add: plot_bike_rental_def Let_def o_def)
qed

theorem trend_chart_lines_witness:
  "sorted (map fst (total_line (plot_bike_rental [\<lparr>dteday = Date 2021 1 2, casual = 5, registered = 5, cnt = 10,
      season = 1, weathersit = 1, temp = 4, hum = 70, windspeed = 9\<rparr>,
     \<lparr>dteday = Date 2021 1 1, casual = 10, registered = 20, cnt = 30,
      season = 1, weathersit = 1, temp = 5, hum = 60, windspeed = 10\<rparr>]))) \<and>
   mset (total_line (plot_bike_rental [\<lparr>dteday = Date 2021 1 2, casual = 5, registered = 5, cnt = 10,
      season = 1, weathersit = 1, temp = 4, hum = 70, windspeed = 9\<rparr>,
     \<lparr>dteday = Date 2021 1 1, casual = 10, registered = 20, cnt = 30,
      season = 1, weathersit = 1, temp = 5, hum = 60, windspeed = 10\<rparr>])) = mset (map (\<lambda>r. (dteday r, cnt r)) [\<lparr>dteday = Date 2021 1 2, casual = 5, registered = 5, cnt = 10,
      season = 1, weathersit = 1, temp = 4, hum = 70, windspeed = 9\<rparr>,
     \<lparr>dteday = Date 2021 1 1, casual = 10, registered = 20, cnt = 30,
      season = 1, weathersit = 1, temp = 5, hum = 60, windspeed = 10\<rparr>]) \<and>
   map fst (casual_line (plot_bike_rental [\<lparr>dteday = Date 2021 1 2, casual = 5, registered = 5, cnt = 10,
      season = 1, weathersit = 1, temp = 4, hum = 70, windspeed = 9\<rparr>,
     \<lparr>dteday = Date 2021 1 1, casual = 10, registered = 20, cnt = 30,
      season = 1, weathersit = 1, temp = 5, hum = 60, windspeed = 10\<rparr>])) = map fst (total_line (plot_bike_rental [\<lparr>dteday = Date 2021 1 2, casual = 5, registered = 5, cnt = 10,
      season = 1, weathersit = 1, temp = 4, hum = 70, windspeed = 9\<rparr>,
     \<lparr>dteday = Date 2021 1 1, casual = 10, registered = 20, cnt = 30,
      season = 1, weathersit = 1, temp = 5, hum = 60, windspeed = 10\<rparr>])) \<and>
   map fst (registered_line (plot_bike_rental [\<lparr>dteday = Date 2021 1 2, casual = 5, registered = 5, cnt = 10,
      season = 1, weathersit = 1, temp = 4, hum = 70, windspeed = 9\<rparr>,
     \<lparr>dteday = Date 2021 1 1, casual = 10, registered = 20, cnt = 30,
      season = 1, weathersit = 1, temp = 5, hum = 60, windspeed = 10\<rparr>])) = map fst (total_line (plot_bike_rental [\<lparr>dteday = Date 2021 1 2, casual = 5, registered = 5, cnt = 10,
      season = 1, weathersit = 1, temp = 4, hum = 70, windspeed = 9\<rparr>,
     \<lparr>dteday = Date 2021 1 1, casual = 10, registered = 20, cnt = 30,
      season = 1, weathersit = 1, temp = 5, hum = 60, windspeed = 10\<rparr>])) \<and>
   map snd (total_line (plot_bike_rental [\<lparr>dteday = Date 2021 1 2, casual = 5, registered = 5, cnt = 10,
      season = 1, weathersit = 1, temp = 4, hum = 70, windspeed = 9\<rparr>,
     \<lparr>dteday = Date 2021 1 1, casual = 10, registered = 20, cnt = 30,
      season = 1, weathersit = 1, temp = 5, hum = 60, windspeed = 10\<rparr>])) = map2 (+) (map snd (casual_line (plot_bike_rental [\<lparr>dteday = Date 2021 1 2, casual = 5, registered = 5, cnt = 10,
      season = 1, weathersit = 1, temp = 4, hum = 70, windspeed = 9\<rparr>,
     \<lparr>dteday = Date 2021 1 1, casual = 10, registered = 20, cnt = 30,
      season = 1, weathersit = 1, temp = 5, hum = 60, windspeed = 10\<rparr>]))) (map snd (registered_line (plot_bike_rental [\<lparr>dteday = Date 2021 1 2, casual = 5, registered = 5, cnt = 10,
      season = 1, weathersit = 1, temp = 4, hum = 70, windspeed = 9\<rparr>,
     \<lparr>dteday = Date 2021 1 1, casual = 10, registered = 20, cnt = 30,
      season = 1, weathersit = 1, temp = 5, hum = 60, windspeed = 10\<rparr>])))"
proof -
  have "table_ok row_ok ([\<lparr>dteday = Date 2021 1 2, casual = 5, registered = 5, cnt = 10,
      season = 1, weathersit = 1, temp = 4, hum = 70, windspeed = 9\<rparr>,
     \<lparr>dteday = Date 2021 1 1, casual = 10, registered = 20, cnt = 30,
      season = 1, weathersit = 1, temp = 5, hum = 60, windspeed = 10\<rparr>] :: day_row list)"
    by (simp add: frame_eval date_eval)
  then show ?thesis by (rule trend_chart_lines)
qed

end
