(* ===== verification/Dashboard.thy ===== *)
theory Dashboard
  imports Groupby Correlation Metrics
begin

text \<open>
  The script as a whole (lines 139--288) and the date-range picker that drives
  it. Streamlit reruns the script top to bottom on every interaction, so one
  run is a function \<open>run_script\<close> of the two loaded tables and the
  picker's current value, composing the components in source order; the first
  exception of a run is its result. The picker (\<^verbatim>\<open>st.date_input\<close> with a
  two-date default, lines 147--151) is a state machine: a complete range, or a
  single date while the user picks a new range. Clicks are limited to the
  widget's bounds, the first and last date of the daily table (lines
  144--145). The lemmas show the picker's invariant by rule induction, what a
  run returns in every reachable state, and that a run in the middle of a
  selection always fails.
\<close>

section \<open>The picker's bounds and value\<close>

text \<open>\<^verbatim>\<open>df_day0["dteday"].min()\<close> and \<^verbatim>\<open>.max()\<close>: NaT on an empty table,
  which \<^verbatim>\<open>st.date_input\<close> rejects.\<close>

definition picker_bounds :: "'a table \<Rightarrow> (date \<times> date) result" where
  "picker_bounds df =
     (case map dteday df of [] \<Rightarrow> Inl NoMinDate | d # ds \<Rightarrow> Inr (fold min ds d, fold max ds d))"

text \<open>\<^verbatim>\<open>start_date, end_date = st.date_input(...)\<close>: the widget returns a
  tuple of the dates picked so far; unpacking anything but two raises.\<close>

definition unpack_range :: "date list \<Rightarrow> (date \<times> date) result" where
  "unpack_range v = (case v of [s, e] \<Rightarrow> Inr (s, e) | _ \<Rightarrow> Inl (UnpackError (length v)))"

section \<open>One run of the script\<close>

record page =
  pg_metrics :: "metric list"
  pg_trend :: trend_chart
  pg_max :: day_card
  pg_min :: day_card
  pg_season :: "(int + string) bar_chart"
  pg_time :: "string bar_chart"
  pg_heatmap :: heatmap
  pg_regressions :: "lr_chart list"

text \<open>Sequencing of statements that may raise: the first exception stops the run.\<close>

definition bind_r :: "'a result \<Rightarrow> ('a \<Rightarrow> 'b result) \<Rightarrow> 'b result" where
  "bind_r m f = (case m of Inl e \<Rightarrow> Inl e | Inr a \<Rightarrow> f a)"

definition run_script :: "day_row list \<Rightarrow> hour_row list \<Rightarrow> date list \<Rightarrow> page result" where
  "run_script df_day0 df_hour0 picked =
     bind_r (unpack_range picked) (\<lambda>(start_date, end_date).
     bind_r (f_date df_day0 start_date end_date) (\<lambda>df_day.
     bind_r (f_date df_hour0 start_date end_date) (\<lambda>df_hour.
     bind_r (summary_metrics df_day) (\<lambda>metrics.
     bind_r (max_card df_day) (\<lambda>max0.
     bind_r (min_card df_day) (\<lambda>min0.
     bind_r (lr_plot df_day Temp ''Suhu'') (\<lambda>r1.
     bind_r (lr_plot df_day Hum ''Kelembapan'') (\<lambda>r2.
     bind_r (lr_plot df_day Windspeed ''Kecepatan Angin'') (\<lambda>r3.
       Inr \<lparr>pg_metrics = metrics, pg_trend = plot_bike_rental df_day, pg_max = max0, pg_min = min0,
            pg_season = plot_season_cnt (season_cnt_table df_day),
            pg_time = plot_time_cnt (time_cnt_table df_hour),
            pg_heatmap = plot_heatmap_corr df_day, pg_regressions = [r1, r2, r3]\<rparr>)))))))))"

section \<open>The picker as a state machine\<close>

text \<open>
  A complete range, or the first date of a new range. A click on a complete
  range starts a new one; the second click completes it, the widget ordering
  the two dates. Only dates within the bounds can be clicked.
\<close>

datatype picker = Range date date | Partial date

fun picker_value :: "picker \<Rightarrow> date list" where
  "picker_value (Range s e) = [s, e]"
| "picker_value (Partial d) = [d]"

inductive picker_step :: "date \<Rightarrow> date \<Rightarrow> picker \<Rightarrow> picker \<Rightarrow> bool" for lo hi where
  start_click: "valid_date d \<Longrightarrow> lo \<le> d \<Longrightarrow> d \<le> hi \<Longrightarrow> picker_step lo hi (Range s e) (Partial d)"
| end_click: "valid_date d \<Longrightarrow> lo \<le> d \<Longrightarrow> d \<le> hi \<Longrightarrow>
    picker_step lo hi (Partial d0) (Range (min d0 d) (max d0 d))"

text \<open>The widget opens on its default value \<^verbatim>\<open>[min_date, max_date]\<close>.\<close>

inductive picker_reach :: "date \<Rightarrow> date \<Rightarrow> picker \<Rightarrow> bool" for lo hi where
  initial: "picker_reach lo hi (Range lo hi)"
| step: "picker_reach lo hi st \<Longrightarrow> picker_step lo hi st st' \<Longrightarrow> picker_reach lo hi st'"

inductive_cases picker_step_RangeE: "picker_step lo hi (Range s e) st'"
inductive_cases picker_step_PartialE: "picker_step lo hi (Partial d) st'"

fun picker_ok :: "date \<Rightarrow> date \<Rightarrow> picker \<Rightarrow> bool" where
  "picker_ok lo hi (Range s e) \<longleftrightarrow> valid_date s \<and> valid_date e \<and> lo \<le> s \<and> s \<le> e \<and> e \<le> hi"
| "picker_ok lo hi (Partial d) \<longleftrightarrow> valid_date d \<and> lo \<le> d \<and> d \<le> hi"

lemmas dashboard_eval [model_eval] = picker_bounds_def unpack_range_def bind_r_def run_script_def

section \<open>The picker's invariant\<close>

lemma picker_bounds_Inr:
  assumes "picker_bounds df = Inr (lo, hi)"
  shows "df \<noteq> [] \<and> lo = Min (dteday ` set df) \<and> hi = Max (dteday ` set df)"
proof (cases df)
  case Nil
  with assms show ?thesis by (simp add: picker_bounds_def)
next
  case (Cons r rs)
  with assms have "lo = fold min (map dteday rs) (dteday r)" "hi = fold max (map dteday rs) (dteday r)"
    by (simp_all add: picker_bounds_def)
  then show ?thesis
    using Cons by (simp add: Min.set_eq_fold [symmetric] Max.set_eq_fold [symmetric])
qed

lemma picker_bounds_ok:
  assumes "table_ok row_ok df" and "picker_bounds df = Inr (lo, hi)"
  shows "valid_date lo \<and> valid_date hi \<and> lo \<le> hi"
proof -
  from picker_bounds_Inr [OF assms(2)] have ne: "df \<noteq> []" and
      lo: "lo = Min (dteday ` set df)" and hi: "hi = Max (dteday ` set df)" by simp_all
  from ne have fin: "finite (dteday ` set df)" "dteday ` set df \<noteq> {}" by simp_all
  have valid: "\<forall>d\<in>dteday ` set df. valid_date d"
    using assms(1) by (auto simp: table_ok_def row_ok_def list_all_iff)
  show ?thesis
    using Min_in [OF fin] Max_in [OF fin] Max_ge [OF fin(1) Min_in [OF fin]] valid lo hi by blast
qed

lemma picker_step_ok:
  "picker_step lo hi st st' \<Longrightarrow> picker_ok lo hi st \<Longrightarrow> picker_ok lo hi st'"
  by (induction rule: picker_step.induct) (auto simp: min_def max_def)

lemma picker_reach_ok:
  assumes "valid_date lo" and "valid_date hi" and "lo \<le> hi"
  shows "picker_reach lo hi st \<Longrightarrow> picker_ok lo hi st"
proof (induction rule: picker_reach.induct)
  case initial
  then show ?case using assms by simp
next
  case (step st st')
  then show ?case by (blast intro: picker_step_ok)
qed

lemma picker_reach_Partial:
  "valid_date d \<Longrightarrow> lo \<le> d \<Longrightarrow> d \<le> hi \<Longrightarrow> picker_reach lo hi (Partial d)"
  by (blast intro: picker_reach.step [OF picker_reach.initial] picker_step.start_click)

section \<open>What a run returns\<close>

lemma bind_r_Inr [simp]: "bind_r (Inr a) f = f a"
  by (simp add: bind_r_def)

lemma bind_r_Inl [simp]: "bind_r (Inl e) f = Inl e"
  by (simp add: bind_r_def)

lemma lr_plot_Inr: "df \<noteq> [] \<Longrightarrow> \<exists>c. lr_plot df v xlab = Inr c"
  by (simp add: lr_plot_def lr_fit_def lr_points_def Let_def)

lemma max_card_Inr: "df \<noteq> [] \<Longrightarrow> \<exists>c. max_card df = Inr c"
  by (cases df) (simp_all add: max_card_def idxmax_def)

lemma min_card_Inr: "df \<noteq> [] \<Longrightarrow> \<exists>c. min_card df = Inr c"
  by (cases df) (simp_all add: min_card_def idxmin_def)

lemma summary_metrics_Inr: "df \<noteq> [] \<Longrightarrow> \<exists>ms. summary_metrics df = Inr ms"
  by (simp add: summary_metrics_def metric_card_def series_mean_def)

lemma summary_metrics_Nil: "summary_metrics [] = Inl NaNToInt"
  by (simp add: summary_metrics_def metric_card_def series_mean_def)

text \<open>A run on a complete range of valid dates: the page is built from the
  two filtered tables, every component applied as the script applies it.\<close>

lemma run_script_range:
  assumes "valid_date s" and "valid_date e" and "filter (in_range s e) df_day0 \<noteq> []"
  shows "\<exists>ms mx mn r1 r2 r3.
     summary_metrics (filter (in_range s e) df_day0) = Inr ms \<and>
     max_card (filter (in_range s e) df_day0) = Inr mx \<and>
     min_card (filter (in_range s e) df_day0) = Inr mn \<and>
     lr_plot (filter (in_range s e) df_day0) Temp ''Suhu'' = Inr r1 \<and>
     lr_plot (filter (in_range s e) df_day0) Hum ''Kelembapan'' = Inr r2 \<and>
     lr_plot (filter (in_range s e) df_day0) Windspeed ''Kecepatan Angin'' = Inr r3 \<and>
     run_script df_day0 df_hour0 [s, e] =
       Inr \<lparr>pg_metrics = ms, pg_trend = plot_bike_rental (filter (in_range s e) df_day0),
            pg_max = mx, pg_min = mn,
            pg_season = plot_season_cnt (season_cnt_table (filter (in_range s e) df_day0)),
            pg_time = plot_time_cnt (time_cnt_table (filter (in_range s e) df_hour0)),
            pg_heatmap = plot_heatmap_corr (filter (in_range s e) df_day0),
            pg_regressions = [r1, r2, r3]\<rparr>"
proof -
  note ne = assms(3)
  obtain ms where ms: "summary_metrics (filter (in_range s e) df_day0) = Inr ms"
    using summary_metrics_Inr [OF ne] by blast
  obtain mx where mx: "max_card (filter (in_range s e) df_day0) = Inr mx"
    using max_card_Inr [OF ne] by blast
  obtain mn where mn: "min_card (filter (in_range s e) df_day0) = Inr mn"
    using min_card_Inr [OF ne] by blast
  obtain r1 where r1: "lr_plot (filter (in_range s e) df_day0) Temp ''Suhu'' = Inr r1"
    using lr_plot_Inr [OF ne] by blast
  obtain r2 where r2: "lr_plot (filter (in_range s e) df_day0) Hum ''Kelembapan'' = Inr r2"
    using lr_plot_Inr [OF ne] by blast
  obtain r3 where r3: "lr_plot (filter (in_range s e) df_day0) Windspeed ''Kecepatan Angin'' = Inr r3"
    using lr_plot_Inr [OF ne] by blast
  show ?thesis
    using ms mx mn r1 r2 r3 assms(1,2)
    by (intro exI [of _ ms] exI [of _ mx] exI [of _ mn] exI [of _ r1] exI [of _ r2] exI [of _ r3])
      (simp add: run_script_def unpack_range_def f_date_valid)
qed

lemma run_script_range_empty:
  assumes "valid_date s" and "valid_date e" and "filter (in_range s e) df_day0 = []"
  shows "run_script df_day0 df_hour0 [s, e] = Inl NaNToInt"
  using assms by (simp add: run_script_def unpack_range_def f_date_valid summary_metrics_Nil)

section \<open>Properties of the picker and of a run\<close>

text \<open>
  C23: the picker's bounds are dates of the daily table, and its default range
  selects the whole table; in every state the picker reaches from that default
  the dates it holds are calendar dates within the bounds, a complete range
  having its start no later than its end.
\<close>

theorem picker_invariant:
  assumes "table_ok row_ok df_day0" and "picker_bounds df_day0 = Inr (lo, hi)"
    and "picker_reach lo hi st"
  shows "lo \<in> dteday ` set df_day0 \<and> hi \<in> dteday ` set df_day0 \<and>
         f_date df_day0 lo hi = Inr df_day0 \<and> picker_ok lo hi st"
proof -
  from picker_bounds_Inr [OF assms(2)] have ne: "df_day0 \<noteq> []" and
      lo: "lo = Min (dteday ` set df_day0)" and hi: "hi = Max (dteday ` set df_day0)" by simp_all
  from ne have fin: "finite (dteday ` set df_day0)" "dteday ` set df_day0 \<noteq> {}" by simp_all
  note b = picker_bounds_ok [OF assms(1,2)]
  have "filter (in_range lo hi) df_day0 = df_day0"
    using Min_le [OF fin(1)] Max_ge [OF fin(1)] by (simp add: lo hi)
  then have "f_date df_day0 lo hi = Inr df_day0"
    using b by (simp add: f_date_valid)
  moreover have "picker_ok lo hi st"
    using b picker_reach_ok assms(3) by blast
  ultimately show ?thesis
    using Min_in [OF fin] Max_in [OF fin] lo hi by simp
qed

theorem picker_invariant_witness:
  "Date 2021 1 1 \<in> dteday ` set [\<lparr>dteday = Date 2021 1 1, casual = 10, registered = 20, cnt = 30,
      season = 1, weathersit = 1, temp = 5, hum = 60, windspeed = 10\<rparr>,
     \<lparr>dteday = Date 2021 1 3, casual = 50, registered = 50, cnt = 100,
      season = 1, weathersit = 2, temp = 8, hum = 50, windspeed = (12::real)\<rparr>] \<and>
   Date 2021 1 3 \<in> dteday ` set [\<lparr>dteday = Date 2021 1 1, casual = 10, registered = 20, cnt = 30,
      season = 1, weathersit = 1, temp = 5, hum = 60, windspeed = 10\<rparr>,
     \<lparr>dteday = Date 2021 1 3, casual = 50, registered = 50, cnt = 100,
      season = 1, weathersit = 2, temp = 8, hum = 50, windspeed = (12::real)\<rparr>] \<and>
   f_date [\<lparr>dteday = Date 2021 1 1, casual = 10, registered = 20, cnt = 30,
      season = 1, weathersit = 1, temp = 5, hum = 60, windspeed = 10\<rparr>,
     \<lparr>dteday = Date 2021 1 3, casual = 50, registered = 50, cnt = 100,
      season = 1, weathersit = 2, temp = 8, hum = 50, windspeed = (12::real)\<rparr>] (Date 2021 1 1) (Date 2021 1 3) = Inr [\<lparr>dteday = Date 2021 1 1, casual = 10, registered = 20, cnt = 30,
      season = 1, weathersit = 1, temp = 5, hum = 60, windspeed = 10\<rparr>,
     \<lparr>dteday = Date 2021 1 3, casual = 50, registered = 50, cnt = 100,
      season = 1, weathersit = 2, temp = 8, hum = 50, windspeed = (12::real)\<rparr>] \<and>
   picker_ok (Date 2021 1 1) (Date 2021 1 3) (Partial (Date 2021 1 2))"
proof -
  have ok: "table_ok row_ok [\<lparr>dteday = Date 2021 1 1, casual = 10, registered = 20, cnt = 30,
      season = 1, weathersit = 1, temp = 5, hum = 60, windspeed = 10\<rparr>,
     \<lparr>dteday = Date 2021 1 3, casual = 50, registered = 50, cnt = 100,
      season = 1, weathersit = 2, temp = 8, hum = 50, windspeed = (12::real)\<rparr>]"
    by (simp add: frame_eval date_eval)
  have b: "picker_bounds [\<lparr>dteday = Date 2021 1 1, casual = 10, registered = 20, cnt = 30,
      season = 1, weathersit = 1, temp = 5, hum = 60, windspeed = 10\<rparr>,
     \<lparr>dteday = Date 2021 1 3, casual = 50, registered = 50, cnt = 100,
      season = 1, weathersit = 2, temp = 8, hum = 50, windspeed = (12::real)\<rparr>] = Inr (Date 2021 1 1, Date 2021 1 3)"
    by (simp add: picker_bounds_def)
  have "picker_reach (Date 2021 1 1) (Date 2021 1 3) (Partial (Date 2021 1 2))"
    by (rule picker_reach_Partial) (simp_all add: date_eval)
  then show ?thesis by (rule picker_invariant [OF ok b])
qed

text \<open>
  C24: as soon as the user clicks the first date of a new range, the widget
  returns a one-date tuple, and the rerun it triggers fails at the unpacking
  of line 147 (\<^verbatim>\<open>ValueError: not enough values to unpack\<close>); every
  clickable date leads to such a state.
\<close>

theorem partial_selection_fails:
  assumes "valid_date d" and "lo \<le> d" and "d \<le> hi"
  shows "picker_reach lo hi (Partial d) \<and>
         run_script df_day0 df_hour0 (picker_value (Partial d)) = Inl (UnpackError 1)"
  using picker_reach_Partial [OF assms] by (simp add: run_script_def unpack_range_def)

theorem partial_selection_fails_witness:
  "picker_reach (Date 2021 1 1) (Date 2021 1 3) (Partial (Date 2021 1 2)) \<and>
   run_script [\<lparr>dteday = Date 2021 1 1, casual = 10, registered = 20, cnt = 30,
      season = 1, weathersit = 1, temp = 5, hum = 60, windspeed = 10\<rparr>,
     \<lparr>dteday = Date 2021 1 3, casual = 50, registered = 50, cnt = 100,
      season = 1, weathersit = 2, temp = 8, hum = 50, windspeed = (12::real)\<rparr>] [] (picker_value (Partial (Date 2021 1 2))) = Inl (UnpackError 1)"
  by (rule partial_selection_fails) (simp_all add: date_eval)

text \<open>
  C25: in every reachable state holding a complete range, a run either renders
  the whole page or fails with the NaN rounding of an empty selection (never on
  the unpacking or on the date comparison), and it renders exactly when some
  row of the daily table lies in the range.
\<close>

theorem complete_range_run:
  assumes "table_ok row_ok df_day0" and "picker_bounds df_day0 = Inr (lo, hi)"
    and "picker_reach lo hi (Range s e)"
  shows "run_script df_day0 df_hour0 (picker_value (Range s e)) \<in> {Inl NaNToInt} \<union> range Inr \<and>
         ((\<exists>pg. run_script df_day0 df_hour0 (picker_value (Range s e)) = Inr pg) \<longleftrightarrow>
          (\<exists>r\<in>set df_day0. s \<le> dteday r \<and> dteday r \<le> e))"
proof -
  have "picker_ok lo hi (Range s e)"
    using picker_bounds_ok [OF assms(1,2)] picker_reach_ok assms(3) by blast
  then have v: "valid_date s" "valid_date e" by simp_all
  show ?thesis
  proof (cases "filter (in_range s e) df_day0 = []")
    case True
    then have "\<not> (\<exists>r\<in>set df_day0. s \<le> dteday r \<and> dteday r \<le> e)"
      by (simp add: filter_empty_conv)
    with run_script_range_empty [OF v True] show ?thesis by simp
  next
    case False
    then have "\<exists>r\<in>set df_day0. s \<le> dteday r \<and> dteday r \<le> e"
      by (simp add: filter_empty_conv)
    with run_script_range [OF v False, of df_hour0] show ?thesis by auto
  qed
qed

theorem complete_range_run_witness:
  "run_script [\<lparr>dteday = Date 2021 1 1, casual = 10, registered = 20, cnt = 30,
      season = 1, weathersit = 1, temp = 5, hum = 60, windspeed = 10\<rparr>,
     \<lparr>dteday = Date 2021 1 3, casual = 50, registered = 50, cnt = 100,
      season = 1, weathersit = 2, temp = 8, hum = 50, windspeed = (12::real)\<rparr>] [] (picker_value (Range (Date 2021 1 1) (Date 2021 1 3))) \<in>
     {Inl NaNToInt} \<union> range Inr \<and>
   ((\<exists>pg. run_script [\<lparr>dteday = Date 2021 1 1, casual = 10, registered = 20, cnt = 30,
      season = 1, weathersit = 1, temp = 5, hum = 60, windspeed = 10\<rparr>,
     \<lparr>dteday = Date 2021 1 3, casual = 50, registered = 50, cnt = 100,
      season = 1, weathersit = 2, temp = 8, hum = 50, windspeed = (12::real)\<rparr>] [] (picker_value (Range (Date 2021 1 1) (Date 2021 1 3))) = Inr pg) \<longleftrightarrow>
    (\<exists>r\<in>set [\<lparr>dteday = Date 2021 1 1, casual = 10, registered = 20, cnt = 30,
      season = 1, weathersit = 1, temp = 5, hum = 60, windspeed = 10\<rparr>,
     \<lparr>dteday = Date 2021 1 3, casual = 50, registered = 50, cnt = 100,
      season = 1, weathersit = 2, temp = 8, hum = 50, windspeed = (12::real)\<rparr>]. Date 2021 1 1 \<le> dteday r \<and> dteday r \<le> Date 2021 1 3))"
proof -
  have ok: "table_ok row_ok [\<lparr>dteday = Date 2021 1 1, casual = 10, registered = 20, cnt = 30,
      season = 1, weathersit = 1, temp = 5, hum = 60, windspeed = 10\<rparr>,
     \<lparr>dteday = Date 2021 1 3, casual = 50, registered = 50, cnt = 100,
      season = 1, weathersit = 2, temp = 8, hum = 50, windspeed = (12::real)\<rparr>]"
    by (simp add: frame_eval date_eval)
  have b: "picker_bounds [\<lparr>dteday = Date 2021 1 1, casual = 10, registered = 20, cnt = 30,
      season = 1, weathersit = 1, temp = 5, hum = 60, windspeed = 10\<rparr>,
     \<lparr>dteday = Date 2021 1 3, casual = 50, registered = 50, cnt = 100,
      season = 1, weathersit = 2, temp = 8, hum = 50, windspeed = (12::real)\<rparr>] = Inr (Date 2021 1 1, Date 2021 1 3)"
    by (simp add: picker_bounds_def)
  show ?thesis by (rule complete_range_run [OF ok b picker_reach.initial])
qed

end
