(* ===== verification/Spec2Isabelle.thy ===== *)
theory Spec2Isabelle
  imports Groupby Correlation Metrics Dashboard
begin

text \<open>
  \<^bold>\<open>Verification model of the Bike-Sharing dashboard.\<close>
  The program is one Streamlit script, \<^verbatim>\<open>src/dashboard/project_dashboard.py\<close>.
  It loads two CSV tables, a daily one (\<^verbatim>\<open>df_day0\<close>) and an hourly one
  (\<^verbatim>\<open>df_hour0\<close>). It defines the helpers \<^verbatim>\<open>f_date\<close>, \<^verbatim>\<open>plot_bike_rental\<close>,
  \<^verbatim>\<open>f_season_cnt\<close>, \<^verbatim>\<open>f_time_cnt\<close>, \<^verbatim>\<open>plot_heatmap_corr\<close>,
  \<^verbatim>\<open>plot_season_cnt\<close>, \<^verbatim>\<open>plot_time_cnt\<close> and \<^verbatim>\<open>lr_plot\<close>. The page
  body then reads a date range from a sidebar picker, filters both tables, and
  renders metric cards, a trend chart, the cards of the extreme days, two bar
  charts of mean counts, a correlation heatmap and three regression charts.
  Streamlit reruns the whole script on every interaction.

  \<^bold>\<open>Theories.\<close>
  \<^item> \<open>Prelude\<close>: the error type (one constructor per exception the script can
    raise), the result type \<open>error + 'a\<close>, and shared lemmas on sums of lists.
  \<^item> \<open>Dates\<close>: calendar dates with their order, the date part of pandas'
    ISO-8601 reader behind \<^verbatim>\<open>pd.to_datetime\<close> and the bound strings of
    \<^verbatim>\<open>f_date\<close> (\<open>parse_iso_date\<close>), \<^verbatim>\<open>str(date)\<close> (\<open>iso_date\<close>) and
    \<^verbatim>\<open>strftime\<close> (\<open>strftime_ymd\<close>), with the exact set of spellings the
    parser accepts.
  \<^item> \<open>Numeric\<close>: \<^verbatim>\<open>Series.mean\<close> (NaN on an empty column), Python's
    half-to-even \<^verbatim>\<open>round\<close> (\<open>py_round\<close>, \<open>round_nd\<close>), and
    \<^verbatim>\<open>idxmax\<close>/\<^verbatim>\<open>idxmin\<close> as first-occurrence scans.
  \<^item> \<open>Frame\<close>: rows as records (a base row extended by daily and hourly
    columns), tables as lists of rows in file order, the data-model invariant,
    and \<^verbatim>\<open>f_date\<close> (lines 19--20).
  \<^item> \<open>Groupby\<close>: \<^verbatim>\<open>groupby(...).agg(mean)\<close> over sorted keys, pandas'
    descending \<^verbatim>\<open>sort_values\<close>, \<^verbatim>\<open>f_season_cnt\<close> and \<^verbatim>\<open>f_time_cnt\<close>
    (lines 39--48), the rounding and relabelling of lines 250--256, and the
    bar charts (lines 65--99).
  \<^item> \<open>Moments\<close> and \<open>Regression\<close>: centred sums, sklearn's
    \<^verbatim>\<open>LinearRegression\<close> fit (minimum-norm slope) and \<^verbatim>\<open>score\<close>
    (\<^verbatim>\<open>r2_score\<close> with its special cases), \<^verbatim>\<open>np.linspace\<close> and
    \<^verbatim>\<open>lr_plot\<close> (lines 102--136).
  \<^item> \<open>Correlation\<close>: pandas' \<^verbatim>\<open>nancorr\<close> as a one-pass Welford fold with
    clipping and NaN cases, the mirrored matrix, and \<^verbatim>\<open>plot_heatmap_corr\<close>
    (lines 51--62, 273).
  \<^item> \<open>Metrics\<close>: the three metric cards (lines 158--172), the trend chart
    (lines 23--36), and the cards of the highest and lowest days with the two
    label dictionaries (lines 178--244).
  \<^item> \<open>Dashboard\<close>: one run of the script (\<open>run_script\<close>, lines 139--288), the
    components composed in source order. The first exception ends the run. The
    date picker is an inductive step relation (\<open>picker_step\<close>) with
    reachability from the default value (\<open>picker_reach\<close>).
  \<^item> This theory: the facts that span components.

  \<^bold>\<open>Correspondence.\<close>
  A pandas column is the list of a record field over the table (for instance
  \<open>map cnt df\<close>). A NaN result is \<open>None\<close>. Every exception is an \<open>Inl\<close> value of
  \<open>error\<close>. Floats are modelled as exact reals, so the theorems describe the
  code up to floating-point rounding. Python's \<^verbatim>\<open>round\<close> and numpy's rounding
  are half to even. Texts are HOL strings, and emoji are their UTF-8 bytes.

  \<^bold>\<open>What is proved.\<close> The claims C1--C27 are, in order:
  \<^item> the filter: exact selection and the reversed range (C1--C2), and the
    strings the date parser accepts (C3);
  \<^item> the group means: groups, order and tie order, the equivalence of pandas'
    descending sort with the stable descending sort, the weighted means, the
    time-of-day means, and the bar charts (C4--C9);
  \<^item> the regression: exact lines, constant counts, least squares, the score
    in [0, 1], linspace, and the chart (C10--C15);
  \<^item> the correlation: one-pass Welford state equal to the two-pass moments,
    and a symmetric heatmap with its diagonal (C16--C17);
  \<^item> the summary section: the metric cards, the failure on an empty
    selection, the first extreme days, the card texts, and the trend chart
    (C18--C22);
  \<^item> the picker and the run: the bounds and the default range selecting the
    whole table with the invariant of every reachable state, the failure of
    every run during a partial selection, and what a run on a complete range
    returns (C23--C25);
  \<^item> across components: the specification's end-to-end scenario (C26), and
    that the regression's R squared is the square of the heatmap coefficient
    (C27).

  \<^bold>\<open>Bounds.\<close> No fuel is needed. Every loop of the script is a fold over a
  finite table, and every recursion is structural or has a measure.

  \<^bold>\<open>Not modelled.\<close>
  \<^item> The HTTPS fetch of the CSV files (lines 10--11): the model starts from the
    loaded tables.
  \<^item> The sidebar image, the markdown and header texts, the explanatory
    expanders, the column layout and the matplotlib/seaborn styling: they
    compute nothing the page displays as data.
  \<^item> Floating-point rounding error. In particular HOL's \<open>x / 0 = 0\<close> hides the
    difference between the fit's guard against a constant covariate and a
    naive slope, so no claim is made about that case.
  \<^item> Date strings outside pandas' ISO-8601 date forms (a time part, leading
    blanks, the texts only dateutil's fallback parser reads): the parser
    returns \<open>None\<close> for them. Neither the dataset nor \<^verbatim>\<open>str(date)\<close> produces
    them.
  \<^item> The order numpy's quicksort gives to rows with equal dates. The daily table
    has one row per date, so no two rows tie.
  \<^item> Tie order of \<^verbatim>\<open>sort_values\<close> on the group tables is modelled as a stable
    sort: numpy sorts arrays this small by insertion sort. Builds whose
    \<^verbatim>\<open>argsort\<close> uses a SIMD kernel need not be stable, and the tie-order
    parts of C5, C6 and C8 assume that they are.
  \<^item> The span of nanosecond timestamps (years 1677--2262 in older pandas):
    the model accepts every year from 1 to 9999, as \<^verbatim>\<open>datetime.date\<close> does.
\<close>

section \<open>The heatmap and the regression charts\<close>

text \<open>The heatmap's columns in the order of line 273.\<close>

definition weather_index :: "weather_var \<Rightarrow> nat" where
  "weather_index v = (case v of Temp \<Rightarrow> 0 | Hum \<Rightarrow> 1 | Windspeed \<Rightarrow> 2)"

lemma moments_swap:
  "sxx (map prod.swap pts) = syy pts \<and> syy (map prod.swap pts) = sxx pts \<and>
   sxy (map prod.swap pts) = sxy pts"
  by (simp add: sxx_def syy_def sxy_def mean_x_def mean_y_def o_def mult.commute)

lemma heatmap_cnt_entry:
  "hm_values (plot_heatmap_corr df) ! 3 ! weather_index v = nancorr_pair (map prod.swap (lr_points v df))"
proof -
  have i: "weather_index v < 4" "weather_index v \<le> 3" by (cases v; simp add: weather_index_def)+
  have c: "heatmap_cols df ! weather_index v = map (weather_col v) df"
    by (cases v) (simp_all add: weather_index_def heatmap_cols_def)
  have "heatmap_cols df ! 3 = map (\<lambda>r. real_of_int (cnt r)) df"
    by (simp add: heatmap_cols_def)
  then show ?thesis
    using i c by (simp add: plot_heatmap_corr_def corr_matrix_def corr_entry_def lr_points_def
      zip_map_map zip_same_conv_map o_def)
qed

lemma lr_score_fit_moments:
  assumes "sxx pts \<noteq> 0" and "syy pts \<noteq> 0" and "lr_fit pts = Inr m"
  shows "lr_score m pts = Some ((sxy pts)\<^sup>2 / (sxx pts * syy pts))"
proof -
  have ne: "pts \<noteq> []" using assms(1) by (auto simp: sxx_def)
  have len: "\<not> length pts < 2" using assms(1) sxx_short [of pts] by linarith
  let ?b = "sxy pts / sxx pts"
  from assms(1,3) lr_fit_Inr [OF ne] have m: "coef m = ?b" "intercept m = mean_y pts - ?b * mean_x pts"
    by auto
  have "sse pts (intercept m) (coef m) = sse pts (mean_y pts - ?b * mean_x pts) ?b"
    by (simp only: m)
  also have "\<dots> = syy pts - 2 * ?b * sxy pts + ?b\<^sup>2 * sxx pts"
    by (rule sse_fit [OF ne])
  also have "\<dots> = syy pts - (sxy pts)\<^sup>2 / sxx pts"
    using assms(1) by (simp add: power2_eq_square field_simps)
  finally have num: "sse pts (intercept m) (coef m) = syy pts - (sxy pts)\<^sup>2 / sxx pts" .
  show ?thesis
  proof (cases "sse pts (intercept m) (coef m) = 0")
    case True
    with num assms(1) have "(sxy pts)\<^sup>2 = sxx pts * syy pts" by (simp add: field_simps)
    with True len assms(1,2) show ?thesis by (simp add: lr_score_eq)
  next
    case False
    have "1 - (syy pts - (sxy pts)\<^sup>2 / sxx pts) / syy pts = (sxy pts)\<^sup>2 / (sxx pts * syy pts)"
      using assms(1,2) by (simp add: field_simps)
    with False len num assms(2) show ?thesis by (simp add: lr_score_eq Let_def)
  qed
qed

text \<open>
  C27: the two weather sections of the page agree: whenever the heatmap shows a
  coefficient between the total count and a covariate, the R squared printed on
  that covariate's regression chart is its square.
\<close>

theorem regression_r2_heatmap:
  assumes "lr_fit (lr_points v df) = Inr m"
    and "hm_values (plot_heatmap_corr df) ! 3 ! weather_index v = Some r"
  shows "lr_score m (lr_points v df) = Some (r\<^sup>2)"
proof -
  from assms(2) have "nancorr_pair (map prod.swap (lr_points v df)) = Some r"
    by (simp add: heatmap_cnt_entry)
  then have nz: "sxx (lr_points v df) \<noteq> 0" "syy (lr_points v df) \<noteq> 0" and
      r: "r = sxy (lr_points v df) / sqrt (syy (lr_points v df) * sxx (lr_points v df))"
    by (simp_all add: nancorr_pair_eq moments_swap split: if_splits)
  have pos: "0 \<le> syy (lr_points v df) * sxx (lr_points v df)"
    using sxx_nonneg syy_nonneg by simp
  have "r\<^sup>2 = (sxy (lr_points v df))\<^sup>2 / (sxx (lr_points v df) * syy (lr_points v df))"
    using pos by (simp add: r power_divide mult.commute)
  then show ?thesis using lr_score_fit_moments [OF nz assms(1)] by simp
qed

theorem regression_r2_heatmap_witness:
  "lr_fit (lr_points Temp [\<lparr>dteday = Date 2021 1 1, casual = 4, registered = 6, cnt = 10,
      season = 1, weathersit = 1, temp = 1, hum = 60, windspeed = 10\<rparr>,
     \<lparr>dteday = Date 2021 1 2, casual = 8, registered = 12, cnt = 20,
      season = 1, weathersit = 1, temp = 2, hum = 50, windspeed = 12\<rparr>,
     \<lparr>dteday = Date 2021 1 3, casual = 10, registered = 20, cnt = 30,
      season = 1, weathersit = 2, temp = 3, hum = 40, windspeed = (11::real)\<rparr>]) = Inr \<lparr>coef = 10, intercept = 0\<rparr> \<and>
   hm_values (plot_heatmap_corr [\<lparr>dteday = Date 2021 1 1, casual = 4, registered = 6, cnt = 10,
      season = 1, weathersit = 1, temp = 1, hum = 60, windspeed = 10\<rparr>,
     \<lparr>dteday = Date 2021 1 2, casual = 8, registered = 12, cnt = 20,
      season = 1, weathersit = 1, temp = 2, hum = 50, windspeed = 12\<rparr>,
     \<lparr>dteday = Date 2021 1 3, casual = 10, registered = 20, cnt = 30,
      season = 1, weathersit = 2, temp = 3, hum = 40, windspeed = (11::real)\<rparr>]) ! 3 ! weather_index Temp = Some 1 \<and>
   lr_score \<lparr>coef = 10, intercept = 0\<rparr> (lr_points Temp [\<lparr>dteday = Date 2021 1 1, casual = 4, registered = 6, cnt = 10,
      season = 1, weathersit = 1, temp = 1, hum = 60, windspeed = 10\<rparr>,
     \<lparr>dteday = Date 2021 1 2, casual = 8, registered = 12, cnt = 20,
      season = 1, weathersit = 1, temp = 2, hum = 50, windspeed = 12\<rparr>,
     \<lparr>dteday = Date 2021 1 3, casual = 10, registered = 20, cnt = 30,
      season = 1, weathersit = 2, temp = 3, hum = 40, windspeed = (11::real)\<rparr>]) = Some (1\<^sup>2)"
proof -
  have fit: "lr_fit (lr_points Temp [\<lparr>dteday = Date 2021 1 1, casual = 4, registered = 6, cnt = 10,
      season = 1, weathersit = 1, temp = 1, hum = 60, windspeed = 10\<rparr>,
     \<lparr>dteday = Date 2021 1 2, casual = 8, registered = 12, cnt = 20,
      season = 1, weathersit = 1, temp = 2, hum = 50, windspeed = 12\<rparr>,
     \<lparr>dteday = Date 2021 1 3, casual = 10, registered = 20, cnt = 30,
      season = 1, weathersit = 2, temp = 3, hum = 40, windspeed = (11::real)\<rparr>]) = Inr \<lparr>coef = 10, intercept = 0\<rparr>"
    by (simp add: lr_fit_def lr_points_def moments_eval)
  have sq: "sqrt 400 = (20::real)" by (rule real_sqrt_unique) simp_all
  have hm: "hm_values (plot_heatmap_corr [\<lparr>dteday = Date 2021 1 1, casual = 4, registered = 6, cnt = 10,
      season = 1, weathersit = 1, temp = 1, hum = 60, windspeed = 10\<rparr>,
     \<lparr>dteday = Date 2021 1 2, casual = 8, registered = 12, cnt = 20,
      season = 1, weathersit = 1, temp = 2, hum = 50, windspeed = 12\<rparr>,
     \<lparr>dteday = Date 2021 1 3, casual = 10, registered = 20, cnt = 30,
      season = 1, weathersit = 2, temp = 3, hum = 40, windspeed = (11::real)\<rparr>]) ! 3 ! weather_index Temp = Some 1"
    by (simp only: heatmap_cnt_entry nancorr_pair_eq moments_swap)
      (simp add: lr_points_def moments_eval sq)
  show ?thesis using regression_r2_heatmap [OF fit hm] fit hm by simp
qed

section \<open>The end-to-end scenario\<close>

text \<open>
  C26: the end-to-end scenario of the specification. On the three days
  2021-01-01 (10, 20, 30), 2021-01-02 (5, 5, 10) and 2021-01-03 (50, 50, 100),
  with the default full range, the page renders; the cards show the sums 65,
  75 and 140, the captions print the means rounded to integers (22, 25 and 47,
  not 46.67), the highest day is 2021-01-03 and the lowest 2021-01-02.
\<close>

theorem end_to_end_scenario:
  "\<exists>pg. run_script [\<lparr>dteday = Date 2021 1 1, casual = 10, registered = 20, cnt = 30,
      season = 1, weathersit = 1, temp = 5, hum = 60, windspeed = 10\<rparr>,
     \<lparr>dteday = Date 2021 1 2, casual = 5, registered = 5, cnt = 10,
      season = 1, weathersit = 2, temp = 4, hum = 70, windspeed = 9\<rparr>,
     \<lparr>dteday = Date 2021 1 3, casual = 50, registered = 50, cnt = 100,
      season = 1, weathersit = 1, temp = 8, hum = 50, windspeed = (12::real)\<rparr>] [] [Date 2021 1 1, Date 2021 1 3] = Inr pg \<and>
     map m_value (pg_metrics pg) = [65, 75, 140] \<and>
     map m_caption (pg_metrics pg) =
       [''Avg. 22 users/day'', ''Avg. 25 users/day'', ''Avg. 47 users/day''] \<and>
     card_date (pg_max pg) = utf8 [240, 159, 147, 133] @ '' 2021-01-03'' \<and> card_total (pg_max pg) = 100 \<and>
     card_date (pg_min pg) = utf8 [240, 159, 147, 133] @ '' 2021-01-02'' \<and> card_total (pg_min pg) = 10"
proof -
  let ?D = "[\<lparr>dteday = Date 2021 1 1, casual = 10, registered = 20, cnt = 30,
      season = 1, weathersit = 1, temp = 5, hum = 60, windspeed = 10\<rparr>,
     \<lparr>dteday = Date 2021 1 2, casual = 5, registered = 5, cnt = 10,
      season = 1, weathersit = 2, temp = 4, hum = 70, windspeed = 9\<rparr>,
     \<lparr>dteday = Date 2021 1 3, casual = 50, registered = 50, cnt = 100,
      season = 1, weathersit = 1, temp = 8, hum = 50, windspeed = (12::real)\<rparr>]"
  have v: "valid_date (Date 2021 1 1)" "valid_date (Date 2021 1 3)" by (simp_all add: date_eval)
  have f: "filter (in_range (Date 2021 1 1) (Date 2021 1 3)) ?D = ?D" by simp
  then have ne: "filter (in_range (Date 2021 1 1) (Date 2021 1 3)) ?D \<noteq> []" by simp
  obtain ms mx mn r1 r2 r3 where
      ms: "summary_metrics ?D = Inr ms" and mx: "max_card ?D = Inr mx" and mn: "min_card ?D = Inr mn" and
      run: "run_script ?D [] [Date 2021 1 1, Date 2021 1 3] =
        Inr \<lparr>pg_metrics = ms, pg_trend = plot_bike_rental ?D, pg_max = mx, pg_min = mn,
             pg_season = plot_season_cnt (season_cnt_table ?D),
             pg_time = plot_time_cnt (time_cnt_table (filter (in_range (Date 2021 1 1) (Date 2021 1 3)) [])),
             pg_heatmap = plot_heatmap_corr ?D, pg_regressions = [r1, r2, r3]\<rparr>"
    using run_script_range [OF v ne, of "[]"] unfolding f by blast
  have "summary_metrics ?D = Inr
     [\<lparr>m_label = ''Casual Users'', m_value = 65, m_caption = ''Avg. 22 users/day''\<rparr>,
      \<lparr>m_label = ''Registered Users'', m_value = 75, m_caption = ''Avg. 25 users/day''\<rparr>,
      \<lparr>m_label = ''Total Users'', m_value = 140, m_caption = ''Avg. 47 users/day''\<rparr>]"
    by code_simp
  with ms have m: "map m_value ms = [65, 75, 140]"
    "map m_caption ms = [''Avg. 22 users/day'', ''Avg. 25 users/day'', ''Avg. 47 users/day'']"
    by auto
  have "max_card ?D = Inr (day_card (?D ! 2))" by (simp add: max_card_def idxmax_def)
  moreover have "card_date (day_card (?D ! 2)) = utf8 [240, 159, 147, 133] @ '' 2021-01-03''"
    by code_simp
  ultimately have x: "card_date mx = utf8 [240, 159, 147, 133] @ '' 2021-01-03''" "card_total mx = 100"
    using mx by (auto simp: day_card_def)
  have "min_card ?D = Inr (day_card (?D ! 1))" by (simp add: min_card_def idxmin_def)
  moreover have "card_date (day_card (?D ! 1)) = utf8 [240, 159, 147, 133] @ '' 2021-01-02''"
    by code_simp
  ultimately have n: "card_date mn = utf8 [240, 159, 147, 133] @ '' 2021-01-02''" "card_total mn = 10"
    using mn by (auto simp: day_card_def)
  show ?thesis using run m x n by simp
qed

end
